theory Spec2Isabelle
  imports Main "HOL-Library.Sublist"
begin

section \<open>HTTP traffic dumps of pkg/util/logging.go\<close>

text \<open>
  The file logging.go keeps two optional file handles as package state, opens them
  from two environment variables in \<open>SetupLogging\<close>, and appends a textual record to
  them in \<open>LogRequest\<close> and \<open>LogResponse\<close>. The file system (afero), the
  serialisation of HTTP messages (httputil) and path resolution (filepath) are
  libraries behind interfaces; they appear below as a record of functions, so that
  every statement holds for each behaviour those libraries may show.
\<close>

subsection \<open>Strings\<close>

text \<open>
  Go strings are byte sequences, as \<^typ>\<open>string\<close> is. \<open>strings.HasPrefix(s, prefix)\<close>
  is \<open>len(s) >= len(prefix) && s[:len(prefix)] == prefix\<close>: the string comes first,
  the prefix second.
\<close>

definition HasPrefix :: "string \<Rightarrow> string \<Rightarrow> bool" where
  "HasPrefix s pre = (length pre \<le> length s \<and> take (length pre) s = pre)"

definition newline :: string where
  "newline = [CHR 0x0A]"

subsection \<open>The body dump policy\<close>

text \<open>
  Lines 207 to 221. Each test passes the literal as the string and \<open>contentType\<close> as
  the prefix, in the order the source has them.
\<close>

definition shouldDumpBody :: "string \<Rightarrow> bool" where
  "shouldDumpBody contentType =
     (if HasPrefix ''text/'' contentType then True
      else if HasPrefix ''application/json'' contentType then True
      else if HasPrefix ''application/xml'' contentType then True
      else False)"

subsection \<open>Errors, panics and results\<close>

text \<open>
  A Go \<open>error\<close> is an opaque value; the code inspects one only through
  \<open>os.IsNotExist\<close>. A function of the source returns \<open>nil\<close> or an error
  (\<open>error option\<close>), unless the run stops first: an index outside a slice panics,
  and \<open>FailOnError\<close> may end the process.
\<close>

datatype error = ErrNotExist | Err string

datatype halt = IndexOutOfRange int nat | Exit int

datatype 'a outcome = Halt halt | Return 'a

definition IsNotExist :: "error option \<Rightarrow> bool" where
  "IsNotExist err = (err = Some ErrNotExist)"

text \<open>The slice index expression \<open>xs[i]\<close>, with its bounds check.\<close>

definition index :: "'a list \<Rightarrow> int \<Rightarrow> halt + 'a" where
  "index xs i =
     (if 0 \<le> i \<and> i < int (length xs) then Inr (xs ! nat i)
      else Inl (IndexOutOfRange i (length xs)))"

subsection \<open>Data\<close>

text \<open>
  \<open>http.Request\<close> and \<open>http.Response\<close> are read here in one field only,
  \<open>Header\<close>, a \<open>map[string][]string\<close>. Everything else the serialiser looks at
  stays in \<open>Other\<close>.
\<close>

record 'a Message =
  Header :: "string \<rightharpoonup> string list"
  Other :: 'a

datatype flag = O_WRONLY | O_APPEND | O_CREATE | O_TRUNC

datatype Level = InfoLevel | DebugLevel

text \<open>
  The output of a logger is a list of sinks, written to in turn as \<open>io.MultiWriter\<close>
  does: the two streams of the process, or a file of the file system.
\<close>

datatype 'h sink = Stdout | Stderr | File 'h

record 'h Logger =
  Level :: Level
  Out :: "'h sink list"

text \<open>
  Every call that leaves the package is entered in a journal together with what it
  returned, in the order of the calls. The journal is not a variable of the source; it
  is what an observer of the file system and of the serialiser sees.
\<close>

datatype 'h event =
    EvAbs string "error + string"
  | EvStat string "error option"
  | EvMkdir string nat "error option"
  | EvOpenFile string "flag set" nat "error + 'h"
  | EvDumpRequestOut bool "error + string"
  | EvDumpResponse bool "error + string"
  | EvWriteString 'h string "error option"
  | EvSync 'h "error option"
  | EvWrite 'h string "error option"

text \<open>
  The package variables \<open>Log\<close>, \<open>requestLogFile\<close> and \<open>responseLogFile\<close>, the
  process environment, the state of the file system behind \<open>afero.Fs\<close>, the output of
  logrus' standard logger, and what has been written to the two streams of the process.
  \<open>Log\<close> is assigned by \<open>SetupLogging\<close> before anything uses it, so it is kept as a
  value, not as a pointer that may be nil.
\<close>

record ('fs, 'h) world =
  fs :: 'fs
  environ :: "string \<rightharpoonup> string"
  Log :: "'h Logger"
  stdLoggerOut :: "'h sink list"
  console :: "('h sink \<times> string) list"
  requestLogFile :: "'h option"
  responseLogFile :: "'h option"
  journal :: "'h event list"

text \<open>
  The libraries, and one function of the repository that is not in this file
  (\<open>FailOnError\<close>, of which only whether it returns matters here). \<open>OpenFile\<close>
  follows the Go convention that a call returns a usable handle or an error.
  \<open>Now\<close> is \<open>time.Now().Format("20060102-150405")\<close>, \<open>Format\<close> is the
  formatter of the logger, which turns a level and a message into the line to write,
  \<open>Write\<close> is the method of a file the logger writes that line with, and
  \<open>ErrorText\<close> is \<open>err.Error()\<close>.
\<close>

record ('fs, 'h, 'rq, 'rs) sys =
  Abs :: "string \<Rightarrow> error + string"
  Stat :: "string \<Rightarrow> 'fs \<Rightarrow> error option"
  Mkdir :: "string \<Rightarrow> nat \<Rightarrow> 'fs \<Rightarrow> error option \<times> 'fs"
  OpenFile :: "string \<Rightarrow> flag set \<Rightarrow> nat \<Rightarrow> 'fs \<Rightarrow> (error + 'h) \<times> 'fs"
  WriteString :: "'h \<Rightarrow> string \<Rightarrow> 'fs \<Rightarrow> error option \<times> 'fs"
  Sync :: "'h \<Rightarrow> 'fs \<Rightarrow> error option \<times> 'fs"
  Write :: "'h \<Rightarrow> string \<Rightarrow> 'fs \<Rightarrow> error option \<times> 'fs"
  Format :: "Level \<Rightarrow> string \<Rightarrow> string"
  ErrorText :: "error \<Rightarrow> string"
  DumpRequestOut :: "'rq Message \<Rightarrow> bool \<Rightarrow> error + string"
  DumpResponse :: "'rs Message \<Rightarrow> bool \<Rightarrow> error + string"
  Now :: string
  PathSeparator :: char
  FailOnError :: "error \<Rightarrow> string \<Rightarrow> halt option"

subsection \<open>Calls to the libraries\<close>

definition callAbs ::
  "('fs, 'h, 'rq, 'rs) sys \<Rightarrow> string \<Rightarrow> ('fs, 'h) world \<Rightarrow> (error + string) \<times> ('fs, 'h) world" where
  "callAbs sys path w =
     (let r = Abs sys path in (r, w\<lparr>journal := journal w @ [EvAbs path r]\<rparr>))"

definition callStat ::
  "('fs, 'h, 'rq, 'rs) sys \<Rightarrow> string \<Rightarrow> ('fs, 'h) world \<Rightarrow> error option \<times> ('fs, 'h) world" where
  "callStat sys name w =
     (let r = Stat sys name (fs w) in (r, w\<lparr>journal := journal w @ [EvStat name r]\<rparr>))"

definition callMkdir ::
  "('fs, 'h, 'rq, 'rs) sys \<Rightarrow> string \<Rightarrow> nat \<Rightarrow> ('fs, 'h) world
     \<Rightarrow> error option \<times> ('fs, 'h) world" where
  "callMkdir sys name perm w =
     (case Mkdir sys name perm (fs w) of
        (r, fs') \<Rightarrow> (r, w\<lparr>fs := fs', journal := journal w @ [EvMkdir name perm r]\<rparr>))"

definition callOpenFile ::
  "('fs, 'h, 'rq, 'rs) sys \<Rightarrow> string \<Rightarrow> flag set \<Rightarrow> nat \<Rightarrow> ('fs, 'h) world
     \<Rightarrow> (error + 'h) \<times> ('fs, 'h) world" where
  "callOpenFile sys name flags perm w =
     (case OpenFile sys name flags perm (fs w) of
        (r, fs') \<Rightarrow>
          (r, w\<lparr>fs := fs', journal := journal w @ [EvOpenFile name flags perm r]\<rparr>))"

definition callWriteString ::
  "('fs, 'h, 'rq, 'rs) sys \<Rightarrow> 'h \<Rightarrow> string \<Rightarrow> ('fs, 'h) world
     \<Rightarrow> error option \<times> ('fs, 'h) world" where
  "callWriteString sys file s w =
     (case WriteString sys file s (fs w) of
        (r, fs') \<Rightarrow> (r, w\<lparr>fs := fs', journal := journal w @ [EvWriteString file s r]\<rparr>))"

definition callSync ::
  "('fs, 'h, 'rq, 'rs) sys \<Rightarrow> 'h \<Rightarrow> ('fs, 'h) world \<Rightarrow> error option \<times> ('fs, 'h) world" where
  "callSync sys file w =
     (case Sync sys file (fs w) of
        (r, fs') \<Rightarrow> (r, w\<lparr>fs := fs', journal := journal w @ [EvSync file r]\<rparr>))"

definition callDumpRequestOut ::
  "('fs, 'h, 'rq, 'rs) sys \<Rightarrow> 'rq Message \<Rightarrow> bool \<Rightarrow> ('fs, 'h) world
     \<Rightarrow> (error + string) \<times> ('fs, 'h) world" where
  "callDumpRequestOut sys request body w =
     (let r = DumpRequestOut sys request body
      in (r, w\<lparr>journal := journal w @ [EvDumpRequestOut body r]\<rparr>))"

definition callDumpResponse ::
  "('fs, 'h, 'rq, 'rs) sys \<Rightarrow> 'rs Message \<Rightarrow> bool \<Rightarrow> ('fs, 'h) world
     \<Rightarrow> (error + string) \<times> ('fs, 'h) world" where
  "callDumpResponse sys response body w =
     (let r = DumpResponse sys response body
      in (r, w\<lparr>journal := journal w @ [EvDumpResponse body r]\<rparr>))"

definition callWrite ::
  "('fs, 'h, 'rq, 'rs) sys \<Rightarrow> 'h \<Rightarrow> string \<Rightarrow> ('fs, 'h) world
     \<Rightarrow> error option \<times> ('fs, 'h) world" where
  "callWrite sys file s w =
     (case Write sys file s (fs w) of
        (r, fs') \<Rightarrow> (r, w\<lparr>fs := fs', journal := journal w @ [EvWrite file s r]\<rparr>))"

subsection \<open>The logger\<close>

text \<open>
  What logrus does with a line. The output of the logger is written sink by sink and
  the writing stops at the first sink that fails, as \<open>io.MultiWriter\<close> does; a line
  for a file goes through the file system, a line for a stream of the process is taken
  to arrive. The logger does not return the error of a failed write: it reports it on
  standard error.
\<close>

fun writeOut ::
  "('fs, 'h, 'rq, 'rs) sys \<Rightarrow> 'h sink list \<Rightarrow> string \<Rightarrow> ('fs, 'h) world
     \<Rightarrow> error option \<times> ('fs, 'h) world" where
  "writeOut sys [] s w = (None, w)"
| "writeOut sys (File file # sinks) s w =
     (case callWrite sys file s w of
        (Some err, w') \<Rightarrow> (Some err, w')
      | (None, w') \<Rightarrow> writeOut sys sinks s w')"
| "writeOut sys (sink # sinks) s w = writeOut sys sinks s (w\<lparr>console := console w @ [(sink, s)]\<rparr>)"

definition logEntry ::
  "('fs, 'h, 'rq, 'rs) sys \<Rightarrow> Level \<Rightarrow> string \<Rightarrow> ('fs, 'h) world \<Rightarrow> ('fs, 'h) world" where
  "logEntry sys level msg w =
     (case writeOut sys (Out (Log w)) (Format sys level msg) w of
        (Some err, w') \<Rightarrow>
          w'\<lparr>console := console w'
               @ [(Stderr, ''Failed to write to log, '' @ ErrorText sys err @ newline)]\<rparr>
      | (None, w') \<Rightarrow> w')"

text \<open>
  \<open>Log.Debug\<close> and \<open>Log.Info\<close> format their arguments with \<open>fmt.Sprint\<close>, which
  joins string operands without a separator; \<open>Debug\<close> prints at level debug only.
\<close>

definition Debug ::
  "('fs, 'h, 'rq, 'rs) sys \<Rightarrow> string list \<Rightarrow> ('fs, 'h) world \<Rightarrow> ('fs, 'h) world" where
  "Debug sys args w =
     (if Level (Log w) = DebugLevel then logEntry sys DebugLevel (concat args) w else w)"

definition Info ::
  "('fs, 'h, 'rq, 'rs) sys \<Rightarrow> string list \<Rightarrow> ('fs, 'h) world \<Rightarrow> ('fs, 'h) world" where
  "Info sys args w = logEntry sys InfoLevel (concat args) w"

subsection \<open>Opening the channels\<close>

text \<open>Line 122. The permission \<open>0644\<close> is octal.\<close>

definition prepareLogFile ::
  "('fs, 'h, 'rq, 'rs) sys \<Rightarrow> string \<Rightarrow> ('fs, 'h) world \<Rightarrow> (error + 'h) \<times> ('fs, 'h) world" where
  "prepareLogFile sys file w = callOpenFile sys file {O_TRUNC, O_CREATE, O_WRONLY} 420 w"

text \<open>Lines 76 to 97.\<close>

definition setupRequestLog ::
  "('fs, 'h, 'rq, 'rs) sys \<Rightarrow> ('fs, 'h) world \<Rightarrow> error option \<times> ('fs, 'h) world" where
  "setupRequestLog sys w =
     (case environ w ''MONACO_REQUEST_LOG'' of
        Some logFilePath \<Rightarrow>
          (case callAbs sys logFilePath w of
             (Inl err, w1) \<Rightarrow> (Some err, w1)
           | (Inr absPath, w1) \<Rightarrow>
               (case prepareLogFile sys absPath
                       (Debug sys [''request log activated at %s'', absPath] w1) of
                  (Inl err, w2) \<Rightarrow> (Some err, w2)
                | (Inr handle, w2) \<Rightarrow> (None, w2\<lparr>requestLogFile := Some handle\<rparr>)))
      | None \<Rightarrow> (None, Debug sys [''request log not activated''] w))"

text \<open>Lines 99 to 120.\<close>

definition setupResponseLog ::
  "('fs, 'h, 'rq, 'rs) sys \<Rightarrow> ('fs, 'h) world \<Rightarrow> error option \<times> ('fs, 'h) world" where
  "setupResponseLog sys w =
     (case environ w ''MONACO_RESPONSE_LOG'' of
        Some logFilePath \<Rightarrow>
          (case callAbs sys logFilePath w of
             (Inl err, w1) \<Rightarrow> (Some err, w1)
           | (Inr absPath, w1) \<Rightarrow>
               (case prepareLogFile sys absPath
                       (Debug sys [''response log activated at %s'', absPath] w1) of
                  (Inl err, w2) \<Rightarrow> (Some err, w2)
                | (Inr handle, w2) \<Rightarrow> (None, w2\<lparr>responseLogFile := Some handle\<rparr>)))
      | None \<Rightarrow> (None, Debug sys [''response log not activated''] w))"

text \<open>
  Lines 40 to 74. \<open>log.New()\<close> gives a logger at level info that writes to standard
  error. The permissions \<open>0777\<close> and \<open>0666\<close> are octal.
\<close>

definition SetupLogging ::
  "('fs, 'h, 'rq, 'rs) sys \<Rightarrow> bool \<Rightarrow> ('fs, 'h) world
     \<Rightarrow> error option outcome \<times> ('fs, 'h) world" where
  "SetupLogging sys verbose w =
     (let w1 = w\<lparr>Log := \<lparr>Level = InfoLevel, Out = [Stderr]\<rparr>, stdLoggerOut := [Stdout]\<rparr>;
          w2 = (if verbose then w1\<lparr>Log := (Log w1)\<lparr>Level := DebugLevel\<rparr>\<rparr> else w1)
      in case callStat sys ''.logs'' w2 of
        (statErr, w3) \<Rightarrow>
          (case (if IsNotExist statErr
                 then (case callMkdir sys ''.logs'' 511 w3 of
                         (Some err, w4) \<Rightarrow> (FailOnError sys err ''could not create directory'', w4)
                       | (None, w4) \<Rightarrow> (None, w4))
                 else (None, w3)) of
             (Some stop, w4) \<Rightarrow> (Halt stop, w4)
           | (None, w4) \<Rightarrow>
               (case callOpenFile sys (''.logs'' @ [PathSeparator sys] @ Now sys @ ''.log'')
                       {O_CREATE, O_WRONLY, O_APPEND} 438 w4 of
                  (Inl err, w5) \<Rightarrow>
                    (Return (Some err),
                     Info sys [''Failed to log to file, using default stderr''] w5)
                | (Inr file, w5) \<Rightarrow>
                    (case setupRequestLog sys
                            (w5\<lparr>Log := (Log w5)\<lparr>Out := [Stderr, File file]\<rparr>\<rparr>) of
                       (Some err, w6) \<Rightarrow> (Return (Some err), w6)
                     | (None, w6) \<Rightarrow>
                         (case setupResponseLog sys w6 of
                            (Some err, w7) \<Rightarrow> (Return (Some err), w7)
                          | (None, w7) \<Rightarrow> (Return None, w7))))))"

text \<open>Lines 126 to 132.\<close>

definition IsRequestLoggingActive :: "('fs, 'h) world \<Rightarrow> bool" where
  "IsRequestLoggingActive w = (requestLogFile w \<noteq> None)"

definition IsResponseLoggingActive :: "('fs, 'h) world \<Rightarrow> bool" where
  "IsResponseLoggingActive w = (responseLogFile w \<noteq> None)"

subsection \<open>Recording a request and a response\<close>

text \<open>
  The three \<open>fmt.Sprintf\<close> calls of lines 155, 187 and 196, each with its format
  string. The first and the last format are raw literals that span three and two lines;
  their last line is 25 equals signs.
\<close>

definition requestRecord :: "string \<Rightarrow> string \<Rightarrow> string" where
  "requestRecord rid stringDump =
     ''Request-ID: '' @ rid @ newline @ stringDump @ newline
       @ ''========================='' @ newline"

definition responseIdLine :: "string \<Rightarrow> string" where
  "responseIdLine rid = ''Request-ID: '' @ rid @ newline"

definition responseRecord :: "string \<Rightarrow> string" where
  "responseRecord stringDump = stringDump @ newline @ ''========================='' @ newline"

text \<open>Lines 134 to 165.\<close>

definition LogRequest ::
  "('fs, 'h, 'rq, 'rs) sys \<Rightarrow> string \<Rightarrow> 'rq Message \<Rightarrow> ('fs, 'h) world
     \<Rightarrow> error option outcome \<times> ('fs, 'h) world" where
  "LogRequest sys rid request w =
     (if \<not> IsRequestLoggingActive w then (Return None, w)
      else
        case (case Header request ''Content-Type'' of
                Some contentTypes \<Rightarrow>
                  (case index contentTypes (int (length contentTypes) - 1) of
                     Inl stop \<Rightarrow> Inl stop
                   | Inr contentType \<Rightarrow> Inr (shouldDumpBody contentType))
              | None \<Rightarrow> Inr False) of
          Inl stop \<Rightarrow> (Halt stop, w)
        | Inr dumpBody \<Rightarrow>
            (case callDumpRequestOut sys request dumpBody w of
               (Inl err, w1) \<Rightarrow> (Return (Some err), w1)
             | (Inr dump, w1) \<Rightarrow>
                 (case callWriteString sys (the (requestLogFile w1))
                         (requestRecord rid dump) w1 of
                    (Some err, w2) \<Rightarrow> (Return (Some err), w2)
                  | (None, w2) \<Rightarrow>
                      (case callSync sys (the (requestLogFile w2)) w2 of
                         (err, w3) \<Rightarrow> (Return err, w3)))))"

text \<open>Lines 167 to 205.\<close>

definition LogResponse ::
  "('fs, 'h, 'rq, 'rs) sys \<Rightarrow> string \<Rightarrow> 'rs Message \<Rightarrow> ('fs, 'h) world
     \<Rightarrow> error option outcome \<times> ('fs, 'h) world" where
  "LogResponse sys rid response w =
     (if \<not> IsResponseLoggingActive w then (Return None, w)
      else
        case (case Header response ''Content-Type'' of
                Some contentTypes \<Rightarrow>
                  (case index contentTypes (int (length contentTypes) - 1) of
                     Inl stop \<Rightarrow> Inl stop
                   | Inr contentType \<Rightarrow> Inr (shouldDumpBody contentType))
              | None \<Rightarrow> Inr False) of
          Inl stop \<Rightarrow> (Halt stop, w)
        | Inr dumpBody \<Rightarrow>
            (case callDumpResponse sys response dumpBody w of
               (Inl err, w1) \<Rightarrow> (Return (Some err), w1)
             | (Inr dump, w1) \<Rightarrow>
                 (case (if rid \<noteq> []
                        then callWriteString sys (the (responseLogFile w1))
                               (responseIdLine rid) w1
                        else (None, w1)) of
                    (Some err, w2) \<Rightarrow> (Return (Some err), w2)
                  | (None, w2) \<Rightarrow>
                      (case callWriteString sys (the (responseLogFile w2))
                              (responseRecord dump) w2 of
                         (Some err, w3) \<Rightarrow> (Return (Some err), w3)
                       | (None, w3) \<Rightarrow>
                           (case callSync sys (the (responseLogFile w3)) w3 of
                              (err, w4) \<Rightarrow> (Return err, w4))))))"

subsection \<open>Observing a run\<close>

text \<open>
  The calls made between two states, the error a call came back with, and the texts
  handed to \<open>WriteString\<close> on one file, in the order of the calls.
\<close>

definition events :: "('fs, 'h) world \<Rightarrow> ('fs, 'h) world \<Rightarrow> 'h event list" where
  "events w w' = drop (length (journal w)) (journal w')"


fun writes :: "'h \<Rightarrow> 'h event list \<Rightarrow> string list" where
  "writes file [] = []"
| "writes file (EvWriteString file' s r # evs) =
     (if file' = file then s # writes file evs else writes file evs)"
| "writes file (ev # evs) = writes file evs"

text \<open>
  The value of \<open>dumpBody\<close> as lines 139 to 145 and 172 to 178 compute it, or the
  panic of the index expression there; an abbreviation for the term that stands in
  \<open>LogRequest\<close> and \<open>LogResponse\<close>.
\<close>

abbreviation dumpBodyFor :: "(string \<rightharpoonup> string list) \<Rightarrow> halt + bool" where
  "dumpBodyFor header \<equiv>
     (case header ''Content-Type'' of
        Some contentTypes \<Rightarrow>
          (case index contentTypes (int (length contentTypes) - 1) of
             Inl stop \<Rightarrow> Inl stop
           | Inr contentType \<Rightarrow> Inr (shouldDumpBody contentType))
      | None \<Rightarrow> Inr False)"

subsection \<open>A file system in memory\<close>

text \<open>
  One behaviour of the libraries, to run the functions on concrete inputs: files are
  named by their path and hold a string, a handle is the path, a write appends, the
  paths in \<open>denied\<close> cannot be opened, and a message carries its wire form as a head
  and a body. \<open>startWorld\<close> is the process before \<open>SetupLogging\<close>: both handles
  are nil.
\<close>

definition memSys ::
  "string set \<Rightarrow> (string \<rightharpoonup> string, string, string \<times> string, string \<times> string) sys" where
  "memSys denied =
     \<lparr>Abs = (\<lambda>path. Inr (if take 1 path = ''/'' then path else ''/work/'' @ path)),
      Stat = (\<lambda>name files. if files name = None then Some ErrNotExist else None),
      Mkdir = (\<lambda>name perm files. (None, files(name \<mapsto> []))),
      OpenFile = (\<lambda>name flags perm files.
         if name \<in> denied then (Inl (Err ''permission denied''), files)
         else (Inr name,
               if O_TRUNC \<in> flags \<or> files name = None then files(name \<mapsto> []) else files)),
      WriteString = (\<lambda>file s files.
         (None, files(file \<mapsto> (case files file of None \<Rightarrow> s | Some old \<Rightarrow> old @ s)))),
      Sync = (\<lambda>file files. (None, files)),
      Write = (\<lambda>file s files.
         (None, files(file \<mapsto> (case files file of None \<Rightarrow> s | Some old \<Rightarrow> old @ s)))),
      Format = (\<lambda>level msg.
         (case level of InfoLevel \<Rightarrow> ''INFO '' | DebugLevel \<Rightarrow> ''DEBU '') @ msg @ newline),
      ErrorText = (\<lambda>err. case err of ErrNotExist \<Rightarrow> ''file does not exist'' | Err text \<Rightarrow> text),
      DumpRequestOut = (\<lambda>request body.
         Inr (fst (Other request) @ (if body then snd (Other request) else []))),
      DumpResponse = (\<lambda>response body.
         Inr (fst (Other response) @ (if body then snd (Other response) else []))),
      Now = ''20200102-030405'',
      PathSeparator = CHR ''/'',
      FailOnError = (\<lambda>err msg. Some (Exit 1))\<rparr>"

definition startWorld :: "(string \<rightharpoonup> string) \<Rightarrow> (string \<rightharpoonup> string, string) world" where
  "startWorld env =
     \<lparr>fs = Map.empty, environ = env, Log = \<lparr>Level = InfoLevel, Out = [Stderr]\<rparr>,
      stdLoggerOut = [Stderr], console = [], requestLogFile = None, responseLogFile = None,
      journal = []\<rparr>"

definition activeWorld :: "(string \<rightharpoonup> string, string) world" where
  "activeWorld =
     (startWorld Map.empty)\<lparr>requestLogFile := Some ''/work/req.log'',
                            responseLogFile := Some ''/work/resp.log''\<rparr>"

definition message :: "string list option \<Rightarrow> string \<Rightarrow> string \<Rightarrow> (string \<times> string) Message" where
  "message contentTypes head body =
     \<lparr>Header = (case contentTypes of None \<Rightarrow> Map.empty
                 | Some values \<Rightarrow> [''Content-Type'' \<mapsto> values]),
      Other = (head, body)\<rparr>"

section \<open>Properties\<close>

subsection \<open>Strings\<close>

lemma HasPrefix_iff_prefix: "HasPrefix s pre \<longleftrightarrow> prefix pre s"
proof
  assume "HasPrefix s pre"
  then have "take (length pre) s = pre"
    by (simp add: HasPrefix_def)
  then show "prefix pre s"
    by (metis take_is_prefix)
next
  assume "prefix pre s"
  then obtain t where "s = pre @ t"
    by (auto simp: prefix_def)
  then show "HasPrefix s pre"
    by (simp add: HasPrefix_def)
qed

lemma shouldDumpBody_iff:
  "shouldDumpBody contentType \<longleftrightarrow>
     prefix contentType ''text/'' \<or> prefix contentType ''application/json''
     \<or> prefix contentType ''application/xml''"
  by (simp add: shouldDumpBody_def HasPrefix_iff_prefix)

subsection \<open>The body dump policy\<close>

text \<open>
  Claim C1. The claim reads: a content type that starts with \<open>text/\<close>,
  \<open>application/json\<close> or \<open>application/xml\<close> is dumped with its body, every other one,
  the empty string included, is not. The code tests the opposite direction, whether
  the literal starts with the content type: \<open>text/plain\<close> and \<open>application/json\<close>
  followed by a charset are refused, the empty string and \<open>t\<close> are accepted.
\<close>

theorem shouldDumpBody_swapped_arguments:
  "shouldDumpBody ''text/plain'' = False
   \<and> shouldDumpBody ''application/json; charset=utf-8'' = False
   \<and> shouldDumpBody '''' = True
   \<and> shouldDumpBody ''t'' = True"
  by (simp add: shouldDumpBody_def HasPrefix_def)

subsection \<open>The runs of LogRequest and LogResponse\<close>

text \<open>
  Once the channel is active and the header lookup has given a flag, a call is a
  sequence of at most four calls to the libraries that ends at the first error.
\<close>

lemma index_last: "xs \<noteq> [] \<Longrightarrow> index xs (int (length xs) - 1) = Inr (last xs)"
  by (cases xs rule: rev_cases) (simp_all add: index_def)

lemma dumpBodyFor_absent: "header ''Content-Type'' = None \<Longrightarrow> dumpBodyFor header = Inr False"
  by simp

lemma dumpBodyFor_empty:
  "header ''Content-Type'' = Some [] \<Longrightarrow> dumpBodyFor header = Inl (IndexOutOfRange (- 1) 0)"
  by (simp add: index_def)

lemma dumpBodyFor_last:
  "header ''Content-Type'' = Some contentTypes \<Longrightarrow> contentTypes \<noteq> [] \<Longrightarrow>
     dumpBodyFor header = Inr (shouldDumpBody (last contentTypes))"
  by (simp add: index_last)

lemma LogRequest_stop:
  assumes "requestLogFile w = Some file" and "dumpBodyFor (Header request) = Inl stop"
  shows "LogRequest sys rid request w = (Halt stop, w)"
  using assms by (simp add: LogRequest_def IsRequestLoggingActive_def)

lemma LogRequest_run:
  assumes "requestLogFile w = Some file" and "dumpBodyFor (Header request) = Inr b"
  shows "LogRequest sys rid request w =
    (case DumpRequestOut sys request b of
       Inl err \<Rightarrow> (Return (Some err), w\<lparr>journal := journal w @ [EvDumpRequestOut b (Inl err)]\<rparr>)
     | Inr dump \<Rightarrow>
         (case WriteString sys file (requestRecord rid dump) (fs w) of
            (Some err, fs1) \<Rightarrow>
              (Return (Some err),
               w\<lparr>fs := fs1,
                 journal := journal w @ [EvDumpRequestOut b (Inr dump),
                   EvWriteString file (requestRecord rid dump) (Some err)]\<rparr>)
          | (None, fs1) \<Rightarrow>
              (case Sync sys file fs1 of
                 (r, fs2) \<Rightarrow>
                   (Return r,
                    w\<lparr>fs := fs2,
                      journal := journal w @ [EvDumpRequestOut b (Inr dump),
                        EvWriteString file (requestRecord rid dump) None, EvSync file r]\<rparr>))))"
  using assms
  by (simp add: LogRequest_def IsRequestLoggingActive_def callDumpRequestOut_def
      callWriteString_def callSync_def Let_def split: sum.split prod.split option.split)


lemma LogResponse_stop:
  assumes "responseLogFile w = Some file" and "dumpBodyFor (Header response) = Inl stop"
  shows "LogResponse sys rid response w = (Halt stop, w)"
  using assms by (simp add: LogResponse_def IsResponseLoggingActive_def)

lemma LogResponse_run_no_id:
  assumes "responseLogFile w = Some file" and "dumpBodyFor (Header response) = Inr b"
    and "rid = []"
  shows "LogResponse sys rid response w =
    (case DumpResponse sys response b of
       Inl err \<Rightarrow> (Return (Some err), w\<lparr>journal := journal w @ [EvDumpResponse b (Inl err)]\<rparr>)
     | Inr dump \<Rightarrow>
         (case WriteString sys file (responseRecord dump) (fs w) of
            (Some err, fs2) \<Rightarrow>
              (Return (Some err),
               w\<lparr>fs := fs2,
                 journal := journal w @ [EvDumpResponse b (Inr dump),
                   EvWriteString file (responseRecord dump) (Some err)]\<rparr>)
          | (None, fs2) \<Rightarrow>
              (case Sync sys file fs2 of
                 (r, fs3) \<Rightarrow>
                   (Return r,
                    w\<lparr>fs := fs3,
                      journal := journal w @ [EvDumpResponse b (Inr dump),
                        EvWriteString file (responseRecord dump) None, EvSync file r]\<rparr>))))"
  using assms
  by (simp add: LogResponse_def IsResponseLoggingActive_def callDumpResponse_def
      callWriteString_def callSync_def Let_def split: sum.split prod.split option.split)

lemma LogResponse_run_id:
  assumes "responseLogFile w = Some file" and "dumpBodyFor (Header response) = Inr b"
    and "rid \<noteq> []"
  shows "LogResponse sys rid response w =
    (case DumpResponse sys response b of
       Inl err \<Rightarrow> (Return (Some err), w\<lparr>journal := journal w @ [EvDumpResponse b (Inl err)]\<rparr>)
     | Inr dump \<Rightarrow>
         (case WriteString sys file (responseIdLine rid) (fs w) of
            (Some err, fs1) \<Rightarrow>
              (Return (Some err),
               w\<lparr>fs := fs1,
                 journal := journal w @ [EvDumpResponse b (Inr dump),
                   EvWriteString file (responseIdLine rid) (Some err)]\<rparr>)
          | (None, fs1) \<Rightarrow>
              (case WriteString sys file (responseRecord dump) fs1 of
                 (Some err, fs2) \<Rightarrow>
                   (Return (Some err),
                    w\<lparr>fs := fs2,
                      journal := journal w @ [EvDumpResponse b (Inr dump),
                        EvWriteString file (responseIdLine rid) None,
                        EvWriteString file (responseRecord dump) (Some err)]\<rparr>)
               | (None, fs2) \<Rightarrow>
                   (case Sync sys file fs2 of
                      (r, fs3) \<Rightarrow>
                        (Return r,
                         w\<lparr>fs := fs3,
                           journal := journal w @ [EvDumpResponse b (Inr dump),
                             EvWriteString file (responseIdLine rid) None,
                             EvWriteString file (responseRecord dump) None,
                             EvSync file r]\<rparr>)))))"
  using assms
  by (simp add: LogResponse_def IsResponseLoggingActive_def callDumpResponse_def
      callWriteString_def callSync_def Let_def split: sum.split prod.split option.split)

lemma events_journal [simp]:
  "events w (w\<lparr>journal := journal w @ evs\<rparr>) = evs"
  "events w (w\<lparr>fs := x, journal := journal w @ evs\<rparr>) = evs"
  "events w w = []"
  by (simp_all add: events_def)

lemma dumpBodyFor_cases:
  obtains (stop) "header ''Content-Type'' = Some []"
      "dumpBodyFor header = Inl (IndexOutOfRange (- 1) 0)"
  | (run) b where "header ''Content-Type'' \<noteq> Some []" "dumpBodyFor header = Inr b"
proof (cases "header ''Content-Type''")
  case None
  then show ?thesis using run [of False] by simp
next
  case (Some contentTypes)
  show ?thesis
  proof (cases "contentTypes = []")
    case True
    with Some show ?thesis using stop dumpBodyFor_empty [of header] by simp
  next
    case False
    with Some show ?thesis
      using run [of "shouldDumpBody (last contentTypes)"] dumpBodyFor_last [of header contentTypes]
      by simp
  qed
qed

subsection \<open>Inactive channels and the channel handles\<close>

text \<open>
  Claim C6. When the request channel is inactive (its handle is nil), \<open>LogRequest\<close>
  returns nil and leaves the whole state as it was: no call reaches the file system, no
  file is created, the journal does not grow. \<open>LogResponse\<close> does the same on an
  inactive response channel.
\<close>

theorem inactive_channel_is_noop:
  "(\<not> IsRequestLoggingActive w \<longrightarrow> LogRequest sys rid request w = (Return None, w))
   \<and> (\<not> IsResponseLoggingActive w \<longrightarrow> LogResponse sys rid response w = (Return None, w))"
  by (simp add: LogRequest_def LogResponse_def)

theorem inactive_channel_is_noop_witness:
  "\<not> IsRequestLoggingActive (startWorld Map.empty)
   \<and> LogRequest (memSys {}) ''abc123'' (message None ''GET / HTTP/1.1'' []) (startWorld Map.empty)
       = (Return None, startWorld Map.empty)
   \<and> \<not> IsResponseLoggingActive (startWorld Map.empty)
   \<and> LogResponse (memSys {}) ''abc123'' (message None ''HTTP/1.1 200 OK'' [])
         (startWorld Map.empty)
       = (Return None, startWorld Map.empty)"
  using inactive_channel_is_noop [where w = "startWorld Map.empty" and sys = "memSys {}"
      and rid = "''abc123''" and request = "message None ''GET / HTTP/1.1'' []"
      and response = "message None ''HTTP/1.1 200 OK'' []"]
  by (simp add: IsRequestLoggingActive_def IsResponseLoggingActive_def startWorld_def)

text \<open>
  Claim C2. On an active channel, a message whose header map has the key
  \<open>Content-Type\<close> with an empty list of values makes the index expression
  \<open>contentTypes[len(contentTypes)-1]\<close> read index -1 of a slice of length 0: the call
  panics before anything is serialised or written. So neither function returns for
  every header map.
\<close>

theorem empty_content_type_list_panics:
  "(IsRequestLoggingActive w \<and> Header request ''Content-Type'' = Some []
      \<longrightarrow> LogRequest sys rid request w = (Halt (IndexOutOfRange (- 1) 0), w))
   \<and> (IsResponseLoggingActive w \<and> Header response ''Content-Type'' = Some []
      \<longrightarrow> LogResponse sys rid response w = (Halt (IndexOutOfRange (- 1) 0), w))"
  by (simp add: LogRequest_def LogResponse_def index_def)

theorem empty_content_type_list_panics_witness:
  "IsRequestLoggingActive activeWorld
   \<and> Header (message (Some []) ''GET / HTTP/1.1'' []) ''Content-Type'' = Some []
   \<and> LogRequest (memSys {}) ''abc123'' (message (Some []) ''GET / HTTP/1.1'' []) activeWorld
       = (Halt (IndexOutOfRange (- 1) 0), activeWorld)
   \<and> IsResponseLoggingActive activeWorld
   \<and> Header (message (Some []) ''HTTP/1.1 200 OK'' []) ''Content-Type'' = Some []
   \<and> LogResponse (memSys {}) ''abc123'' (message (Some []) ''HTTP/1.1 200 OK'' []) activeWorld
       = (Halt (IndexOutOfRange (- 1) 0), activeWorld)"
  using empty_content_type_list_panics [where w = activeWorld and sys = "memSys {}"
      and rid = "''abc123''" and request = "message (Some []) ''GET / HTTP/1.1'' []"
      and response = "message (Some []) ''HTTP/1.1 200 OK'' []"]
  by (simp add: IsRequestLoggingActive_def IsResponseLoggingActive_def activeWorld_def
      startWorld_def message_def)

lemma LogRequest_handles:
  "requestLogFile (snd (LogRequest sys rid request w)) = requestLogFile w
   \<and> responseLogFile (snd (LogRequest sys rid request w)) = responseLogFile w"
proof (cases "requestLogFile w")
  case None
  then show ?thesis by (simp add: LogRequest_def IsRequestLoggingActive_def)
next
  case (Some logFile)
  show ?thesis
  proof (cases "Header request" rule: dumpBodyFor_cases)
    case stop
    with Some show ?thesis by (simp add: LogRequest_stop [of w logFile])
  next
    case (run b)
    with Some show ?thesis
      by (simp add: LogRequest_run [of w logFile request b]
          split: sum.split prod.split option.split)
  qed
qed

lemma LogResponse_handles:
  "requestLogFile (snd (LogResponse sys rid response w)) = requestLogFile w
   \<and> responseLogFile (snd (LogResponse sys rid response w)) = responseLogFile w"
proof (cases "responseLogFile w")
  case None
  then show ?thesis by (simp add: LogResponse_def IsResponseLoggingActive_def)
next
  case (Some logFile)
  show ?thesis
  proof (cases "Header response" rule: dumpBodyFor_cases)
    case stop
    with Some show ?thesis by (simp add: LogResponse_stop [of w logFile])
  next
    case (run b)
    show ?thesis
    proof (cases "rid = []")
      case True
      with Some run show ?thesis
        by (simp add: LogResponse_run_no_id [of w logFile response b]
            split: sum.split prod.split option.split)
    next
      case False
      with Some run show ?thesis
        by (simp add: LogResponse_run_id [of w logFile response b]
            split: sum.split prod.split option.split)
    qed
  qed
qed

text \<open>
  Claim C10. Neither \<open>LogRequest\<close> nor \<open>LogResponse\<close> assigns to
  \<open>requestLogFile\<close> or \<open>responseLogFile\<close>: after a call, whether it returned nil,
  returned an error or panicked, both handles are what they were, and so are the answers
  of \<open>IsRequestLoggingActive\<close> and \<open>IsResponseLoggingActive\<close>.
\<close>

theorem record_keeps_channel_handles:
  "requestLogFile (snd (LogRequest sys rid request w)) = requestLogFile w
   \<and> responseLogFile (snd (LogRequest sys rid request w)) = responseLogFile w
   \<and> requestLogFile (snd (LogResponse sys rid response w)) = requestLogFile w
   \<and> responseLogFile (snd (LogResponse sys rid response w)) = responseLogFile w
   \<and> IsRequestLoggingActive (snd (LogRequest sys rid request w)) = IsRequestLoggingActive w
   \<and> IsResponseLoggingActive (snd (LogRequest sys rid request w)) = IsResponseLoggingActive w
   \<and> IsRequestLoggingActive (snd (LogResponse sys rid response w)) = IsRequestLoggingActive w
   \<and> IsResponseLoggingActive (snd (LogResponse sys rid response w)) = IsResponseLoggingActive w"
  by (simp add: LogRequest_handles LogResponse_handles IsRequestLoggingActive_def
      IsResponseLoggingActive_def)

subsection \<open>Which content type decides\<close>

lemma LogRequest_first_event:
  assumes "requestLogFile w = Some logFile" and "dumpBodyFor (Header request) = Inr b"
  shows "take 1 (events w (snd (LogRequest sys rid request w)))
         = [EvDumpRequestOut b (DumpRequestOut sys request b)]"
  using assms
  by (simp add: LogRequest_run [of w logFile request b] split: sum.split prod.split option.split)

lemma LogResponse_first_event:
  assumes "responseLogFile w = Some logFile" and "dumpBodyFor (Header response) = Inr b"
  shows "take 1 (events w (snd (LogResponse sys rid response w)))
         = [EvDumpResponse b (DumpResponse sys response b)]"
proof (cases "rid = []")
  case True
  with assms show ?thesis
    by (simp add: LogResponse_run_no_id [of w logFile response b]
        split: sum.split prod.split option.split)
next
  case False
  with assms show ?thesis
    by (simp add: LogResponse_run_id [of w logFile response b]
        split: sum.split prod.split option.split)
qed

text \<open>
  Claim C3. When the \<open>Content-Type\<close> header of a request or a response is present
  with one value or more, the first call made is the serialiser, and the flag it is given
  is \<open>shouldDumpBody\<close> of the last value of the list, not of the first. When the
  header is absent the flag is false: the body is not dumped.
\<close>

theorem content_type_last_value_decides:
  "(IsRequestLoggingActive w \<and> Header request ''Content-Type'' = Some contentTypes
      \<and> contentTypes \<noteq> []
      \<longrightarrow> take 1 (events w (snd (LogRequest sys rid request w)))
          = [EvDumpRequestOut (shouldDumpBody (last contentTypes))
               (DumpRequestOut sys request (shouldDumpBody (last contentTypes)))])
   \<and> (IsRequestLoggingActive w \<and> Header request ''Content-Type'' = None
      \<longrightarrow> take 1 (events w (snd (LogRequest sys rid request w)))
          = [EvDumpRequestOut False (DumpRequestOut sys request False)])
   \<and> (IsResponseLoggingActive w \<and> Header response ''Content-Type'' = Some contentTypes
      \<and> contentTypes \<noteq> []
      \<longrightarrow> take 1 (events w (snd (LogResponse sys rid response w)))
          = [EvDumpResponse (shouldDumpBody (last contentTypes))
               (DumpResponse sys response (shouldDumpBody (last contentTypes)))])
   \<and> (IsResponseLoggingActive w \<and> Header response ''Content-Type'' = None
      \<longrightarrow> take 1 (events w (snd (LogResponse sys rid response w)))
          = [EvDumpResponse False (DumpResponse sys response False)])"
proof (intro conjI impI)
  assume a: "IsRequestLoggingActive w \<and> Header request ''Content-Type'' = Some contentTypes
      \<and> contentTypes \<noteq> []"
  then obtain logFile where "requestLogFile w = Some logFile"
    by (auto simp: IsRequestLoggingActive_def)
  with a show "take 1 (events w (snd (LogRequest sys rid request w)))
          = [EvDumpRequestOut (shouldDumpBody (last contentTypes))
               (DumpRequestOut sys request (shouldDumpBody (last contentTypes)))]"
    using LogRequest_first_event [of w logFile request "shouldDumpBody (last contentTypes)"]
      dumpBodyFor_last [of "Header request" contentTypes]
    by simp
next
  assume a: "IsRequestLoggingActive w \<and> Header request ''Content-Type'' = None"
  then obtain logFile where "requestLogFile w = Some logFile"
    by (auto simp: IsRequestLoggingActive_def)
  with a show "take 1 (events w (snd (LogRequest sys rid request w)))
          = [EvDumpRequestOut False (DumpRequestOut sys request False)]"
    using LogRequest_first_event [of w logFile request False]
    by simp
next
  assume a: "IsResponseLoggingActive w \<and> Header response ''Content-Type'' = Some contentTypes
      \<and> contentTypes \<noteq> []"
  then obtain logFile where "responseLogFile w = Some logFile"
    by (auto simp: IsResponseLoggingActive_def)
  with a show "take 1 (events w (snd (LogResponse sys rid response w)))
          = [EvDumpResponse (shouldDumpBody (last contentTypes))
               (DumpResponse sys response (shouldDumpBody (last contentTypes)))]"
    using LogResponse_first_event [of w logFile response "shouldDumpBody (last contentTypes)"]
      dumpBodyFor_last [of "Header response" contentTypes]
    by simp
next
  assume a: "IsResponseLoggingActive w \<and> Header response ''Content-Type'' = None"
  then obtain logFile where "responseLogFile w = Some logFile"
    by (auto simp: IsResponseLoggingActive_def)
  with a show "take 1 (events w (snd (LogResponse sys rid response w)))
          = [EvDumpResponse False (DumpResponse sys response False)]"
    using LogResponse_first_event [of w logFile response False]
    by simp
qed

theorem content_type_last_value_decides_witness:
  "IsRequestLoggingActive activeWorld
   \<and> Header (message (Some [''application/json'', ''text/plain'']) ''POST / HTTP/1.1'' ''{}'')
        ''Content-Type'' = Some [''application/json'', ''text/plain'']
   \<and> shouldDumpBody ''text/plain'' = False
   \<and> shouldDumpBody ''application/json'' = True
   \<and> take 1 (events activeWorld (snd (LogRequest (memSys {}) ''abc123''
         (message (Some [''application/json'', ''text/plain'']) ''POST / HTTP/1.1'' ''{}'')
         activeWorld)))
       = [EvDumpRequestOut False (Inr ''POST / HTTP/1.1'')]
   \<and> Header (message None ''GET / HTTP/1.1'' ''{}'') ''Content-Type'' = None
   \<and> take 1 (events activeWorld (snd (LogRequest (memSys {}) ''abc123''
         (message None ''GET / HTTP/1.1'' ''{}'') activeWorld)))
       = [EvDumpRequestOut False (Inr ''GET / HTTP/1.1'')]
   \<and> IsResponseLoggingActive activeWorld
   \<and> take 1 (events activeWorld (snd (LogResponse (memSys {}) ''abc123''
         (message (Some [''application/json'', ''text/plain'']) ''HTTP/1.1 200 OK'' ''{}'')
         activeWorld)))
       = [EvDumpResponse False (Inr ''HTTP/1.1 200 OK'')]
   \<and> take 1 (events activeWorld (snd (LogResponse (memSys {}) ''abc123''
         (message None ''HTTP/1.1 204 No Content'' ''{}'') activeWorld)))
       = [EvDumpResponse False (Inr ''HTTP/1.1 204 No Content'')]"
  using content_type_last_value_decides [where w = activeWorld and sys = "memSys {}"
      and rid = "''abc123''" and contentTypes = "[''application/json'', ''text/plain'']"
      and request
        = "message (Some [''application/json'', ''text/plain'']) ''POST / HTTP/1.1'' ''{}''"
      and response
        = "message (Some [''application/json'', ''text/plain'']) ''HTTP/1.1 200 OK'' ''{}''"]
    content_type_last_value_decides [where w = activeWorld and sys = "memSys {}"
      and rid = "''abc123''" and request = "message None ''GET / HTTP/1.1'' ''{}''"
      and response = "message None ''HTTP/1.1 204 No Content'' ''{}''"]
  by (simp add: IsRequestLoggingActive_def IsResponseLoggingActive_def activeWorld_def
      startWorld_def message_def shouldDumpBody_def HasPrefix_def memSys_def)

subsection \<open>The text of a record\<close>

lemma separator_25: "''========================='' = replicate 25 (CHR ''='')"
  by code_simp

lemma requestRecord_text:
  "requestRecord rid dump
     = ''Request-ID: '' @ rid @ [CHR 0x0A] @ dump @ [CHR 0x0A] @ replicate 25 (CHR ''='')
         @ [CHR 0x0A]"
  unfolding requestRecord_def newline_def separator_25 by simp

lemma responseRecord_text:
  "responseRecord dump = dump @ [CHR 0x0A] @ replicate 25 (CHR ''='') @ [CHR 0x0A]"
  unfolding responseRecord_def newline_def separator_25 by simp

lemma responseIdLine_text: "responseIdLine rid = ''Request-ID: '' @ rid @ [CHR 0x0A]"
  unfolding responseIdLine_def newline_def by simp

lemma LogRequest_writes:
  assumes "requestLogFile w = Some logFile" and "dumpBodyFor (Header request) = Inr b"
    and "DumpRequestOut sys request b = Inr dump"
  shows "writes logFile (events w (snd (LogRequest sys rid request w))) = [requestRecord rid dump]"
  using assms
  by (simp add: LogRequest_run [of w logFile request b] split: prod.split option.split)

lemma LogResponse_writes_no_id:
  assumes "responseLogFile w = Some logFile" and "dumpBodyFor (Header response) = Inr b"
    and "DumpResponse sys response b = Inr dump" and "rid = []"
  shows "writes logFile (events w (snd (LogResponse sys rid response w))) = [responseRecord dump]"
  using assms
  by (simp add: LogResponse_run_no_id [of w logFile response b] split: prod.split option.split)

lemma LogResponse_writes_id:
  assumes "responseLogFile w = Some logFile" and "dumpBodyFor (Header response) = Inr b"
    and "DumpResponse sys response b = Inr dump" and "rid \<noteq> []"
  shows "writes logFile (events w (snd (LogResponse sys rid response w)))
         = responseIdLine rid
           # (if fst (WriteString sys logFile (responseIdLine rid) (fs w)) = None
              then [responseRecord dump] else [])"
  using assms
  by (simp add: LogResponse_run_id [of w logFile response b] split: prod.split option.split)

text \<open>
  Claim C5. On an active request channel, for a request whose header lookup does not
  panic and that the serialiser turns into a dump, \<open>LogRequest\<close> hands the request
  file one text, in one call of \<open>WriteString\<close>: the line \<open>Request-ID: \<close> followed by
  the id, the dump, and a line of 25 equals signs, each of the three followed by a line
  feed. This holds for every id, the empty one included.
\<close>

theorem request_record_text:
  assumes "requestLogFile w = Some logFile"
    and "dumpBodyFor (Header request) = Inr b"
    and "DumpRequestOut sys request b = Inr dump"
  shows "writes logFile (events w (snd (LogRequest sys rid request w)))
         = [''Request-ID: '' @ rid @ [CHR 0x0A] @ dump @ [CHR 0x0A]
              @ replicate 25 (CHR ''='') @ [CHR 0x0A]]"
  using LogRequest_writes [OF assms] by (simp only: requestRecord_text)

lemmas run_defs = LogRequest_def LogResponse_def IsRequestLoggingActive_def
  IsResponseLoggingActive_def callDumpRequestOut_def callDumpResponse_def callWriteString_def
  callSync_def index_def shouldDumpBody_def HasPrefix_def Let_def events_def
  memSys_def startWorld_def activeWorld_def message_def

theorem request_record_text_witness:
  "requestLogFile activeWorld = Some ''/work/req.log''
   \<and> dumpBodyFor (Header (message (Some [''application/json'']) ''POST / HTTP/1.1'' ''{}''))
       = Inr True
   \<and> DumpRequestOut (memSys {}) (message (Some [''application/json'']) ''POST / HTTP/1.1'' ''{}'')
        True = Inr ''POST / HTTP/1.1{}''
   \<and> writes ''/work/req.log'' (events activeWorld (snd (LogRequest (memSys {}) ''abc123''
         (message (Some [''application/json'']) ''POST / HTTP/1.1'' ''{}'') activeWorld)))
       = [''Request-ID: abc123'' @ [CHR 0x0A] @ ''POST / HTTP/1.1{}'' @ [CHR 0x0A]
            @ ''========================='' @ [CHR 0x0A]]
   \<and> fs (snd (LogRequest (memSys {}) ''abc123''
         (message (Some [''application/json'']) ''POST / HTTP/1.1'' ''{}'') activeWorld))
        ''/work/req.log''
       = Some (''Request-ID: abc123'' @ [CHR 0x0A] @ ''POST / HTTP/1.1{}'' @ [CHR 0x0A]
            @ ''========================='' @ [CHR 0x0A])
   \<and> dumpBodyFor (Header (message None ''GET / HTTP/1.1'' [])) = Inr False
   \<and> DumpRequestOut (memSys {}) (message None ''GET / HTTP/1.1'' []) False
       = Inr ''GET / HTTP/1.1''
   \<and> writes ''/work/req.log'' (events activeWorld (snd (LogRequest (memSys {}) ''abc123''
         (message None ''GET / HTTP/1.1'' []) activeWorld)))
       = [''Request-ID: abc123'' @ [CHR 0x0A] @ ''GET / HTTP/1.1'' @ [CHR 0x0A]
            @ ''========================='' @ [CHR 0x0A]]"
proof -
  let ?json = "message (Some [''application/json'']) ''POST / HTTP/1.1'' ''{}''"
  let ?plain = "message None ''GET / HTTP/1.1'' []"
  have a: "requestLogFile activeWorld = Some ''/work/req.log''"
    by (simp add: activeWorld_def startWorld_def)
  have b: "dumpBodyFor (Header ?json) = Inr True" "dumpBodyFor (Header ?plain) = Inr False"
    by (simp_all add: message_def index_def shouldDumpBody_def HasPrefix_def)
  have c: "DumpRequestOut (memSys {}) ?json True = Inr ''POST / HTTP/1.1{}''"
    "DumpRequestOut (memSys {}) ?plain False = Inr ''GET / HTTP/1.1''"
    by (simp_all add: memSys_def message_def)
  have d: "fs (snd (LogRequest (memSys {}) ''abc123'' ?json activeWorld)) ''/work/req.log''
       = Some (''Request-ID: abc123'' @ [CHR 0x0A] @ ''POST / HTTP/1.1{}'' @ [CHR 0x0A]
            @ ''========================='' @ [CHR 0x0A])"
    by (simp add: run_defs requestRecord_def newline_def)
  from a b c d
    request_record_text [OF a b(1) c(1), of "''abc123''"]
    request_record_text [OF a b(2) c(2), of "''abc123''"]
  show ?thesis
    by (simp add: separator_25)
qed

text \<open>
  Claim C4. On an active channel, for a message whose header lookup does not panic and
  that the serialiser turns into a dump: \<open>LogRequest\<close> writes the line
  \<open>Request-ID: \<close> with the id whatever the id is, the empty string included, as the
  head of the one text it writes. \<open>LogResponse\<close> writes that line, in a call of its
  own and before anything else, when the id is not empty, and the dump with the
  separator after it if that first write succeeded; when the id is empty, the only text
  it writes is the dump and the separator. A line ends with a line feed.
\<close>

theorem request_id_line_written:
  "(requestLogFile w = Some logFile \<and> dumpBodyFor (Header request) = Inr b
      \<and> DumpRequestOut sys request b = Inr dump
      \<longrightarrow> writes logFile (events w (snd (LogRequest sys rid request w)))
          = [''Request-ID: '' @ rid @ [CHR 0x0A] @ dump @ [CHR 0x0A]
               @ replicate 25 (CHR ''='') @ [CHR 0x0A]])
   \<and> (responseLogFile w = Some logFile \<and> dumpBodyFor (Header response) = Inr b
      \<and> DumpResponse sys response b = Inr dump \<and> rid \<noteq> []
      \<longrightarrow> writes logFile (events w (snd (LogResponse sys rid response w)))
          = (''Request-ID: '' @ rid @ [CHR 0x0A])
            # (if fst (WriteString sys logFile (''Request-ID: '' @ rid @ [CHR 0x0A]) (fs w)) = None
               then [dump @ [CHR 0x0A] @ replicate 25 (CHR ''='') @ [CHR 0x0A]] else []))
   \<and> (responseLogFile w = Some logFile \<and> dumpBodyFor (Header response) = Inr b
      \<and> DumpResponse sys response b = Inr dump \<and> rid = []
      \<longrightarrow> writes logFile (events w (snd (LogResponse sys rid response w)))
          = [dump @ [CHR 0x0A] @ replicate 25 (CHR ''='') @ [CHR 0x0A]])"
proof (intro conjI impI)
  assume "requestLogFile w = Some logFile \<and> dumpBodyFor (Header request) = Inr b
      \<and> DumpRequestOut sys request b = Inr dump"
  then show "writes logFile (events w (snd (LogRequest sys rid request w)))
          = [''Request-ID: '' @ rid @ [CHR 0x0A] @ dump @ [CHR 0x0A]
               @ replicate 25 (CHR ''='') @ [CHR 0x0A]]"
    using LogRequest_writes [of w logFile request b sys dump rid]
    by (simp add: requestRecord_text)
next
  assume "responseLogFile w = Some logFile \<and> dumpBodyFor (Header response) = Inr b
      \<and> DumpResponse sys response b = Inr dump \<and> rid \<noteq> []"
  then show "writes logFile (events w (snd (LogResponse sys rid response w)))
          = (''Request-ID: '' @ rid @ [CHR 0x0A])
            # (if fst (WriteString sys logFile (''Request-ID: '' @ rid @ [CHR 0x0A]) (fs w)) = None
               then [dump @ [CHR 0x0A] @ replicate 25 (CHR ''='') @ [CHR 0x0A]] else [])"
    using LogResponse_writes_id [of w logFile response b sys dump rid]
    by (simp add: responseRecord_text responseIdLine_text)
next
  assume "responseLogFile w = Some logFile \<and> dumpBodyFor (Header response) = Inr b
      \<and> DumpResponse sys response b = Inr dump \<and> rid = []"
  then show "writes logFile (events w (snd (LogResponse sys rid response w)))
          = [dump @ [CHR 0x0A] @ replicate 25 (CHR ''='') @ [CHR 0x0A]]"
    using LogResponse_writes_no_id [of w logFile response b sys dump rid]
    by (auto simp: responseRecord_text)
qed

theorem request_id_line_written_witness:
  "requestLogFile activeWorld = Some ''/work/req.log''
   \<and> dumpBodyFor (Header (message (Some [''text/plain'']) ''POST / HTTP/1.1'' ''hello''))
       = Inr False
   \<and> DumpRequestOut (memSys {}) (message (Some [''text/plain'']) ''POST / HTTP/1.1'' ''hello'')
        False = Inr ''POST / HTTP/1.1''
   \<and> writes ''/work/req.log'' (events activeWorld (snd (LogRequest (memSys {}) []
         (message (Some [''text/plain'']) ''POST / HTTP/1.1'' ''hello'') activeWorld)))
       = [''Request-ID: '' @ [CHR 0x0A] @ ''POST / HTTP/1.1'' @ [CHR 0x0A]
            @ ''========================='' @ [CHR 0x0A]]
   \<and> responseLogFile activeWorld = Some ''/work/resp.log''
   \<and> dumpBodyFor (Header (message (Some [''application/json'']) ''HTTP/1.1 200 OK'' ''{}''))
       = Inr True
   \<and> DumpResponse (memSys {}) (message (Some [''application/json'']) ''HTTP/1.1 200 OK'' ''{}'')
        True = Inr ''HTTP/1.1 200 OK{}''
   \<and> writes ''/work/resp.log'' (events activeWorld (snd (LogResponse (memSys {})
         ''abc123'' (message (Some [''application/json'']) ''HTTP/1.1 200 OK'' ''{}'')
         activeWorld)))
       = [''Request-ID: abc123'' @ [CHR 0x0A],
          ''HTTP/1.1 200 OK{}'' @ [CHR 0x0A] @ ''========================='' @ [CHR 0x0A]]
   \<and> writes ''/work/resp.log'' (events activeWorld (snd (LogResponse (memSys {}) []
         (message (Some [''application/json'']) ''HTTP/1.1 200 OK'' ''{}'') activeWorld)))
       = [''HTTP/1.1 200 OK{}'' @ [CHR 0x0A] @ ''========================='' @ [CHR 0x0A]]"
proof -
  let ?request = "message (Some [''text/plain'']) ''POST / HTTP/1.1'' ''hello''"
  let ?response = "message (Some [''application/json'']) ''HTTP/1.1 200 OK'' ''{}''"
  have a: "requestLogFile activeWorld = Some ''/work/req.log''"
    "responseLogFile activeWorld = Some ''/work/resp.log''"
    "fs activeWorld = Map.empty"
    by (simp_all add: activeWorld_def startWorld_def)
  have b: "dumpBodyFor (Header ?request) = Inr False" "dumpBodyFor (Header ?response) = Inr True"
    by (simp_all add: message_def index_def shouldDumpBody_def HasPrefix_def)
  have c: "DumpRequestOut (memSys {}) ?request False = Inr ''POST / HTTP/1.1''"
    "DumpResponse (memSys {}) ?response True = Inr ''HTTP/1.1 200 OK{}''"
    by (simp_all add: memSys_def message_def)
  have d: "fst (WriteString (memSys {}) ''/work/resp.log'' (''Request-ID: '' @ ''abc123'' @ [CHR 0x0A])
              (fs activeWorld)) = None"
    by (simp add: memSys_def)
  from a b c d
    request_id_line_written [where w = activeWorld and logFile = "''/work/req.log''"
      and sys = "memSys {}" and rid = "[]" and b = False and dump = "''POST / HTTP/1.1''"
      and request = ?request]
    request_id_line_written [where w = activeWorld and logFile = "''/work/resp.log''"
      and sys = "memSys {}" and rid = "''abc123''" and b = True
      and dump = "''HTTP/1.1 200 OK{}''" and response = ?response]
    request_id_line_written [where w = activeWorld and logFile = "''/work/resp.log''"
      and sys = "memSys {}" and rid = "[]" and b = True
      and dump = "''HTTP/1.1 200 OK{}''" and response = ?response]
  show ?thesis
    by (simp add: separator_25)
qed

subsection \<open>The first failure ends a record\<close>





subsection \<open>The logger\<close>

text \<open>
  A line of the logger changes neither the environment nor the handles nor the logger;
  the calls it makes are writes to files, and what they do to the file system depends on
  the file system and on the logger only.
\<close>

lemma writeOut_frame:
  assumes "writeOut sys sinks s w = (r, w')"
  shows "environ w' = environ w \<and> requestLogFile w' = requestLogFile w
       \<and> responseLogFile w' = responseLogFile w \<and> Log w' = Log w
       \<and> (\<exists>evs. journal w' = journal w @ evs
              \<and> (\<forall>ev \<in> set evs. \<exists>file t x. ev = EvWrite file t x))"
  using assms
proof (induction sinks arbitrary: w r w')
  case Nil
  then show ?case by simp
next
  case (Cons sink sinks)
  show ?case
  proof (cases sink)
    case Stdout
    with Cons.prems
    have "writeOut sys sinks s (w\<lparr>console := console w @ [(Stdout, s)]\<rparr>) = (r, w')"
      by simp
    from Cons.IH [OF this] show ?thesis by simp
  next
    case Stderr
    with Cons.prems
    have "writeOut sys sinks s (w\<lparr>console := console w @ [(Stderr, s)]\<rparr>) = (r, w')"
      by simp
    from Cons.IH [OF this] show ?thesis by simp
  next
    case (File logFile)
    obtain x fs' where wr: "Write sys logFile s (fs w) = (x, fs')"
      by (cases "Write sys logFile s (fs w)")
    let ?w1 = "w\<lparr>fs := fs', journal := journal w @ [EvWrite logFile s x]\<rparr>"
    have call: "callWrite sys logFile s w = (x, ?w1)"
      by (simp add: callWrite_def wr)
    show ?thesis
    proof (cases x)
      case (Some err)
      with Cons.prems File call have "w' = ?w1" by auto
      then show ?thesis by simp
    next
      case None
      with Cons.prems File call have "writeOut sys sinks s ?w1 = (r, w')" by auto
      from Cons.IH [OF this]
      obtain evs where "environ w' = environ w" "requestLogFile w' = requestLogFile w"
        "responseLogFile w' = responseLogFile w" "Log w' = Log w"
        "journal w' = journal w @ EvWrite logFile s x # evs"
        "\<forall>ev \<in> set evs. \<exists>file t x. ev = EvWrite file t x"
        by auto
      then show ?thesis by auto
    qed
  qed
qed

lemma writeOut_depends:
  assumes "fs w1 = fs w2"
  shows "fst (writeOut sys sinks s w1) = fst (writeOut sys sinks s w2)
       \<and> fs (snd (writeOut sys sinks s w1)) = fs (snd (writeOut sys sinks s w2))"
  using assms
proof (induction sinks arbitrary: w1 w2)
  case Nil
  then show ?case by simp
next
  case (Cons sink sinks)
  show ?case
  proof (cases sink)
    case Stdout
    with Cons.IH [of "w1\<lparr>console := console w1 @ [(Stdout, s)]\<rparr>"
        "w2\<lparr>console := console w2 @ [(Stdout, s)]\<rparr>"] Cons.prems
    show ?thesis by simp
  next
    case Stderr
    with Cons.IH [of "w1\<lparr>console := console w1 @ [(Stderr, s)]\<rparr>"
        "w2\<lparr>console := console w2 @ [(Stderr, s)]\<rparr>"] Cons.prems
    show ?thesis by simp
  next
    case (File logFile)
    obtain x fs' where wr: "Write sys logFile s (fs w2) = (x, fs')"
      by (cases "Write sys logFile s (fs w2)")
    with Cons.prems have wr1: "Write sys logFile s (fs w1) = (x, fs')" by simp
    show ?thesis
    proof (cases x)
      case (Some err)
      with File wr wr1 show ?thesis by (simp add: callWrite_def)
    next
      case None
      with File wr wr1
        Cons.IH [of "w1\<lparr>fs := fs', journal := journal w1 @ [EvWrite logFile s None]\<rparr>"
          "w2\<lparr>fs := fs', journal := journal w2 @ [EvWrite logFile s None]\<rparr>"]
      show ?thesis by (simp add: callWrite_def)
    qed
  qed
qed

lemma logEntry_frame:
  "environ (logEntry sys level msg w) = environ w
   \<and> requestLogFile (logEntry sys level msg w) = requestLogFile w
   \<and> responseLogFile (logEntry sys level msg w) = responseLogFile w
   \<and> Log (logEntry sys level msg w) = Log w
   \<and> (\<exists>evs. journal (logEntry sys level msg w) = journal w @ evs
          \<and> (\<forall>ev \<in> set evs. \<exists>file t x. ev = EvWrite file t x))"
proof -
  obtain r w' where run: "writeOut sys (Out (Log w)) (Format sys level msg) w = (r, w')"
    by (cases "writeOut sys (Out (Log w)) (Format sys level msg) w")
  from writeOut_frame [OF run] run show ?thesis
    by (cases r) (auto simp: logEntry_def)
qed

lemma logEntry_depends:
  assumes "fs w1 = fs w2" and "Log w1 = Log w2"
  shows "fs (logEntry sys level msg w1) = fs (logEntry sys level msg w2)"
proof -
  from writeOut_depends [OF assms(1), of sys "Out (Log w2)" "Format sys level msg"] assms(2)
  show ?thesis
    by (cases "writeOut sys (Out (Log w2)) (Format sys level msg) w1";
        cases "writeOut sys (Out (Log w2)) (Format sys level msg) w2")
      (auto simp: logEntry_def split: option.splits)
qed

lemma Debug_fields [simp]:
  "environ (Debug sys args w) = environ w"
  "requestLogFile (Debug sys args w) = requestLogFile w"
  "responseLogFile (Debug sys args w) = responseLogFile w"
  "Log (Debug sys args w) = Log w"
  using logEntry_frame [of sys DebugLevel "concat args" w] by (simp_all add: Debug_def)

lemma Info_fields [simp]:
  "environ (Info sys args w) = environ w"
  "requestLogFile (Info sys args w) = requestLogFile w"
  "responseLogFile (Info sys args w) = responseLogFile w"
  "Log (Info sys args w) = Log w"
  using logEntry_frame [of sys InfoLevel "concat args" w] by (simp_all add: Info_def)

lemma Debug_journal:
  obtains evs where "journal (Debug sys args w) = journal w @ evs"
    and "\<forall>ev \<in> set evs. \<exists>file t x. ev = EvWrite file t x"
proof (cases "Level (Log w) = DebugLevel")
  case True
  with logEntry_frame [of sys DebugLevel "concat args" w] that show ?thesis
    by (auto simp: Debug_def)
next
  case False
  with that [of "[]"] show ?thesis by (simp add: Debug_def)
qed

lemma Info_journal:
  obtains evs where "journal (Info sys args w) = journal w @ evs"
    and "\<forall>ev \<in> set evs. \<exists>file t x. ev = EvWrite file t x"
  using logEntry_frame [of sys InfoLevel "concat args" w] that by (auto simp: Info_def)

lemma Debug_depends:
  assumes "fs w1 = fs w2" and "Log w1 = Log w2"
  shows "fs (Debug sys args w1) = fs (Debug sys args w2)"
  using assms logEntry_depends [OF assms, of sys DebugLevel "concat args"]
  by (simp add: Debug_def)

subsection \<open>Opening the channels\<close>

lemma events_append: "journal w' = journal w @ evs \<Longrightarrow> events w w' = evs"
  by (simp add: events_def)

lemma setupRequestLog_unset:
  "environ w ''MONACO_REQUEST_LOG'' = None \<Longrightarrow>
     setupRequestLog sys w = (None, Debug sys [''request log not activated''] w)"
  by (simp add: setupRequestLog_def)

lemma setupResponseLog_unset:
  "environ w ''MONACO_RESPONSE_LOG'' = None \<Longrightarrow>
     setupResponseLog sys w = (None, Debug sys [''response log not activated''] w)"
  by (simp add: setupResponseLog_def)

lemma Debug_events:
  "EvAbs path r \<notin> set (events w (Debug sys args w))"
  "EvOpenFile name flags perm h \<notin> set (events w (Debug sys args w))"
proof -
  obtain evs where "journal (Debug sys args w) = journal w @ evs"
    and "\<forall>ev \<in> set evs. \<exists>logFile t x. ev = EvWrite logFile t x"
    by (rule Debug_journal)
  then show "EvAbs path r \<notin> set (events w (Debug sys args w))"
    and "EvOpenFile name flags perm h \<notin> set (events w (Debug sys args w))"
    by (auto simp: events_def)
qed

text \<open>
  Claim C7. When the environment variable of a channel is not set, the initialisation of
  that channel returns nil, resolves no path and opens no file, and does not assign the
  handle of the channel: a channel that was inactive, as both are when the process
  starts, stays inactive. (The one thing it does is a line for the logger at level
  debug, which goes where the logger writes.)
\<close>

theorem unset_variable_keeps_channel_inactive:
  "(environ w ''MONACO_REQUEST_LOG'' = None
      \<longrightarrow> fst (setupRequestLog sys w) = None
        \<and> EvAbs path r \<notin> set (events w (snd (setupRequestLog sys w)))
        \<and> EvOpenFile name flags perm h \<notin> set (events w (snd (setupRequestLog sys w)))
        \<and> requestLogFile (snd (setupRequestLog sys w)) = requestLogFile w
        \<and> IsRequestLoggingActive (snd (setupRequestLog sys w)) = IsRequestLoggingActive w)
   \<and> (environ w ''MONACO_RESPONSE_LOG'' = None
      \<longrightarrow> fst (setupResponseLog sys w) = None
        \<and> EvAbs path r \<notin> set (events w (snd (setupResponseLog sys w)))
        \<and> EvOpenFile name flags perm h \<notin> set (events w (snd (setupResponseLog sys w)))
        \<and> responseLogFile (snd (setupResponseLog sys w)) = responseLogFile w
        \<and> IsResponseLoggingActive (snd (setupResponseLog sys w)) = IsResponseLoggingActive w)"
  by (simp add: setupRequestLog_unset setupResponseLog_unset Debug_events
      IsRequestLoggingActive_def IsResponseLoggingActive_def)

lemmas setup_defs = SetupLogging_def setupRequestLog_def setupResponseLog_def prepareLogFile_def
  callAbs_def callStat_def callMkdir_def callOpenFile_def callWrite_def Debug_def Info_def
  logEntry_def IsNotExist_def IsRequestLoggingActive_def IsResponseLoggingActive_def Let_def
  events_def memSys_def startWorld_def newline_def

theorem unset_variable_keeps_channel_inactive_witness:
  "environ ((startWorld Map.empty)\<lparr>Log := \<lparr>Level = DebugLevel, Out = [Stderr, File ''.logs/x.log'']\<rparr>\<rparr>)
      ''MONACO_REQUEST_LOG'' = None
   \<and> fst (setupRequestLog (memSys {})
        ((startWorld Map.empty)\<lparr>Log := \<lparr>Level = DebugLevel, Out = [Stderr, File ''.logs/x.log'']\<rparr>\<rparr>))
       = None
   \<and> events ((startWorld Map.empty)\<lparr>Log := \<lparr>Level = DebugLevel, Out = [Stderr, File ''.logs/x.log'']\<rparr>\<rparr>)
        (snd (setupRequestLog (memSys {})
          ((startWorld Map.empty)\<lparr>Log := \<lparr>Level = DebugLevel, Out = [Stderr, File ''.logs/x.log'']\<rparr>\<rparr>)))
       = [EvWrite ''.logs/x.log'' (''DEBU request log not activated'' @ [CHR 0x0A]) None]
   \<and> IsRequestLoggingActive (snd (setupRequestLog (memSys {})
        ((startWorld Map.empty)\<lparr>Log := \<lparr>Level = DebugLevel, Out = [Stderr, File ''.logs/x.log'']\<rparr>\<rparr>)))
       = False
   \<and> environ ((startWorld Map.empty)\<lparr>Log := \<lparr>Level = DebugLevel, Out = [Stderr, File ''.logs/x.log'']\<rparr>\<rparr>)
      ''MONACO_RESPONSE_LOG'' = None
   \<and> fst (setupResponseLog (memSys {})
        ((startWorld Map.empty)\<lparr>Log := \<lparr>Level = DebugLevel, Out = [Stderr, File ''.logs/x.log'']\<rparr>\<rparr>))
       = None
   \<and> IsResponseLoggingActive (snd (setupResponseLog (memSys {})
        ((startWorld Map.empty)\<lparr>Log := \<lparr>Level = DebugLevel, Out = [Stderr, File ''.logs/x.log'']\<rparr>\<rparr>)))
       = False"
proof -
  let ?w = "(startWorld Map.empty)\<lparr>Log := \<lparr>Level = DebugLevel, Out = [Stderr, File ''.logs/x.log'']\<rparr>\<rparr>"
  have a: "environ ?w ''MONACO_REQUEST_LOG'' = None" "environ ?w ''MONACO_RESPONSE_LOG'' = None"
    "IsRequestLoggingActive ?w = False" "IsResponseLoggingActive ?w = False"
    by (simp_all add: startWorld_def IsRequestLoggingActive_def IsResponseLoggingActive_def)
  have b: "events ?w (snd (setupRequestLog (memSys {}) ?w))
       = [EvWrite ''.logs/x.log'' (''DEBU request log not activated'' @ [CHR 0x0A]) None]"
    by (simp add: setup_defs)
  from a b unset_variable_keeps_channel_inactive [where w = ?w and sys = "memSys {}"]
  show ?thesis
    by simp
qed

lemma setupRequestLog_abs_fails:
  assumes "environ w ''MONACO_REQUEST_LOG'' = Some path" and "Abs sys path = Inl e"
  shows "setupRequestLog sys w = (Some e, w\<lparr>journal := journal w @ [EvAbs path (Inl e)]\<rparr>)"
  using assms by (simp add: setupRequestLog_def callAbs_def Let_def)

lemma setupRequestLog_opens:
  assumes "environ w ''MONACO_REQUEST_LOG'' = Some path" and "Abs sys path = Inr absPath"
    and "wd = Debug sys [''request log activated at %s'', absPath]
                (w\<lparr>journal := journal w @ [EvAbs path (Inr absPath)]\<rparr>)"
    and "OpenFile sys absPath {O_TRUNC, O_CREATE, O_WRONLY} 420 (fs wd) = (r, fs')"
    and "wo = wd\<lparr>fs := fs',
                 journal := journal wd @ [EvOpenFile absPath {O_TRUNC, O_CREATE, O_WRONLY} 420 r]\<rparr>"
  shows "setupRequestLog sys w
         = (case r of Inl err \<Rightarrow> (Some err, wo)
            | Inr handle \<Rightarrow> (None, wo\<lparr>requestLogFile := Some handle\<rparr>))"
  using assms
  by (simp add: setupRequestLog_def callAbs_def prepareLogFile_def callOpenFile_def Let_def
      split: sum.split)

lemma setupResponseLog_abs_fails:
  assumes "environ w ''MONACO_RESPONSE_LOG'' = Some path" and "Abs sys path = Inl e"
  shows "setupResponseLog sys w = (Some e, w\<lparr>journal := journal w @ [EvAbs path (Inl e)]\<rparr>)"
  using assms by (simp add: setupResponseLog_def callAbs_def Let_def)

lemma setupResponseLog_opens:
  assumes "environ w ''MONACO_RESPONSE_LOG'' = Some path" and "Abs sys path = Inr absPath"
    and "wd = Debug sys [''response log activated at %s'', absPath]
                (w\<lparr>journal := journal w @ [EvAbs path (Inr absPath)]\<rparr>)"
    and "OpenFile sys absPath {O_TRUNC, O_CREATE, O_WRONLY} 420 (fs wd) = (r, fs')"
    and "wo = wd\<lparr>fs := fs',
                 journal := journal wd @ [EvOpenFile absPath {O_TRUNC, O_CREATE, O_WRONLY} 420 r]\<rparr>"
  shows "setupResponseLog sys w
         = (case r of Inl err \<Rightarrow> (Some err, wo)
            | Inr handle \<Rightarrow> (None, wo\<lparr>responseLogFile := Some handle\<rparr>))"
  using assms
  by (simp add: setupResponseLog_def callAbs_def prepareLogFile_def callOpenFile_def Let_def
      split: sum.split)

lemma setupRequestLog_result:
  assumes "setupRequestLog sys w = (r, w')"
  shows "\<exists>evs. journal w' = journal w @ evs
      \<and> (\<forall>path e. EvAbs path (Inl e) \<in> set evs \<longrightarrow> r = Some e)
      \<and> (\<forall>name flags perm e. EvOpenFile name flags perm (Inl e) \<in> set evs \<longrightarrow> r = Some e)
      \<and> environ w' = environ w
      \<and> responseLogFile w' = responseLogFile w
      \<and> (r = None \<and> environ w ''MONACO_REQUEST_LOG'' \<noteq> None \<longrightarrow> requestLogFile w' \<noteq> None)"
proof (cases "environ w ''MONACO_REQUEST_LOG''")
  case None
  obtain evs where "journal (Debug sys [''request log not activated''] w) = journal w @ evs"
    and "\<forall>ev \<in> set evs. \<exists>logFile t x. ev = EvWrite logFile t x"
    by (rule Debug_journal)
  with assms None setupRequestLog_unset [of w sys] show ?thesis
    by auto
next
  case (Some path)
  show ?thesis
  proof (cases "Abs sys path")
    case (Inl e)
    with assms Some setupRequestLog_abs_fails [of w path sys e] show ?thesis
      by auto
  next
    case (Inr absPath)
    define wd where "wd = Debug sys [''request log activated at %s'', absPath]
                (w\<lparr>journal := journal w @ [EvAbs path (Inr absPath)]\<rparr>)"
    obtain ro fs' where op: "OpenFile sys absPath {O_TRUNC, O_CREATE, O_WRONLY} 420 (fs wd) = (ro, fs')"
      by (cases "OpenFile sys absPath {O_TRUNC, O_CREATE, O_WRONLY} 420 (fs wd)")
    define wo where "wo = wd\<lparr>fs := fs',
        journal := journal wd @ [EvOpenFile absPath {O_TRUNC, O_CREATE, O_WRONLY} 420 ro]\<rparr>"
    obtain evs
      where "journal (Debug sys [''request log activated at %s'', absPath]
                (w\<lparr>journal := journal w @ [EvAbs path (Inr absPath)]\<rparr>))
             = journal (w\<lparr>journal := journal w @ [EvAbs path (Inr absPath)]\<rparr>) @ evs"
      and ed: "\<forall>ev \<in> set evs. \<exists>logFile t x. ev = EvWrite logFile t x"
      by (rule Debug_journal)
    then have jd: "journal wd = journal w @ EvAbs path (Inr absPath) # evs"
      by (simp add: wd_def)
    have fd: "environ wd = environ w" "responseLogFile wd = responseLogFile w"
      by (simp_all add: wd_def)
    from setupRequestLog_opens [OF Some Inr wd_def op wo_def] assms
    have res: "(r, w') = (case ro of Inl err \<Rightarrow> (Some err, wo)
            | Inr handle \<Rightarrow> (None, wo\<lparr>requestLogFile := Some handle\<rparr>))"
      by simp
    show ?thesis
    proof (cases ro)
      case (Inl err)
      with res jd ed fd show ?thesis by (auto simp: wo_def)
    next
      case (Inr handle)
      with res jd ed fd show ?thesis by (auto simp: wo_def)
    qed
  qed
qed

lemma setupResponseLog_result:
  assumes "setupResponseLog sys w = (r, w')"
  shows "\<exists>evs. journal w' = journal w @ evs
      \<and> (\<forall>path e. EvAbs path (Inl e) \<in> set evs \<longrightarrow> r = Some e)
      \<and> (\<forall>name flags perm e. EvOpenFile name flags perm (Inl e) \<in> set evs \<longrightarrow> r = Some e)
      \<and> environ w' = environ w
      \<and> requestLogFile w' = requestLogFile w
      \<and> (r = None \<and> environ w ''MONACO_RESPONSE_LOG'' \<noteq> None \<longrightarrow> responseLogFile w' \<noteq> None)"
proof (cases "environ w ''MONACO_RESPONSE_LOG''")
  case None
  obtain evs where "journal (Debug sys [''response log not activated''] w) = journal w @ evs"
    and "\<forall>ev \<in> set evs. \<exists>logFile t x. ev = EvWrite logFile t x"
    by (rule Debug_journal)
  with assms None setupResponseLog_unset [of w sys] show ?thesis
    by auto
next
  case (Some path)
  show ?thesis
  proof (cases "Abs sys path")
    case (Inl e)
    with assms Some setupResponseLog_abs_fails [of w path sys e] show ?thesis
      by auto
  next
    case (Inr absPath)
    define wd where "wd = Debug sys [''response log activated at %s'', absPath]
                (w\<lparr>journal := journal w @ [EvAbs path (Inr absPath)]\<rparr>)"
    obtain ro fs' where op: "OpenFile sys absPath {O_TRUNC, O_CREATE, O_WRONLY} 420 (fs wd) = (ro, fs')"
      by (cases "OpenFile sys absPath {O_TRUNC, O_CREATE, O_WRONLY} 420 (fs wd)")
    define wo where "wo = wd\<lparr>fs := fs',
        journal := journal wd @ [EvOpenFile absPath {O_TRUNC, O_CREATE, O_WRONLY} 420 ro]\<rparr>"
    obtain evs
      where "journal (Debug sys [''response log activated at %s'', absPath]
                (w\<lparr>journal := journal w @ [EvAbs path (Inr absPath)]\<rparr>))
             = journal (w\<lparr>journal := journal w @ [EvAbs path (Inr absPath)]\<rparr>) @ evs"
      and ed: "\<forall>ev \<in> set evs. \<exists>logFile t x. ev = EvWrite logFile t x"
      by (rule Debug_journal)
    then have jd: "journal wd = journal w @ EvAbs path (Inr absPath) # evs"
      by (simp add: wd_def)
    have fd: "environ wd = environ w" "requestLogFile wd = requestLogFile w"
      by (simp_all add: wd_def)
    from setupResponseLog_opens [OF Some Inr wd_def op wo_def] assms
    have res: "(r, w') = (case ro of Inl err \<Rightarrow> (Some err, wo)
            | Inr handle \<Rightarrow> (None, wo\<lparr>responseLogFile := Some handle\<rparr>))"
      by simp
    show ?thesis
    proof (cases ro)
      case (Inl err)
      with res jd ed fd show ?thesis by (auto simp: wo_def)
    next
      case (Inr handle)
      with res jd ed fd show ?thesis by (auto simp: wo_def)
    qed
  qed
qed

lemma setupRequestLog_failures:
  "(environ w ''MONACO_REQUEST_LOG'' = Some path \<and> Abs sys path = Inl e
      \<longrightarrow> fst (setupRequestLog sys w) = Some e
        \<and> requestLogFile (snd (setupRequestLog sys w)) = requestLogFile w)
   \<and> (environ w ''MONACO_REQUEST_LOG'' = Some path \<and> Abs sys path = Inr absPath
        \<and> fst (OpenFile sys absPath {O_TRUNC, O_CREATE, O_WRONLY} 420
                 (fs (Debug sys [''request log activated at %s'', absPath] w))) = Inl e
      \<longrightarrow> fst (setupRequestLog sys w) = Some e
        \<and> requestLogFile (snd (setupRequestLog sys w)) = requestLogFile w)"
proof (rule conjI; rule impI)
  assume "environ w ''MONACO_REQUEST_LOG'' = Some path \<and> Abs sys path = Inl e"
  then show "fst (setupRequestLog sys w) = Some e
        \<and> requestLogFile (snd (setupRequestLog sys w)) = requestLogFile w"
    using setupRequestLog_abs_fails [of w path sys e] by simp
next
  let ?wa = "w\<lparr>journal := journal w @ [EvAbs path (Inr absPath)]\<rparr>"
  let ?args = "[''request log activated at %s'', absPath]"
  assume a: "environ w ''MONACO_REQUEST_LOG'' = Some path \<and> Abs sys path = Inr absPath
        \<and> fst (OpenFile sys absPath {O_TRUNC, O_CREATE, O_WRONLY} 420
                 (fs (Debug sys ?args w))) = Inl e"
  have same: "fs (Debug sys ?args ?wa) = fs (Debug sys ?args w)"
    by (rule Debug_depends) simp_all
  obtain fs' where op: "OpenFile sys absPath {O_TRUNC, O_CREATE, O_WRONLY} 420
      (fs (Debug sys ?args ?wa)) = (Inl e, fs')"
    using a same
    by (cases "OpenFile sys absPath {O_TRUNC, O_CREATE, O_WRONLY} 420 (fs (Debug sys ?args w))")
      simp
  from a have set: "environ w ''MONACO_REQUEST_LOG'' = Some path" and abs: "Abs sys path = Inr absPath"
    by simp_all
  from setupRequestLog_opens [OF set abs refl op refl]
  show "fst (setupRequestLog sys w) = Some e
        \<and> requestLogFile (snd (setupRequestLog sys w)) = requestLogFile w"
    by simp
qed

lemma setupResponseLog_failures:
  "(environ w ''MONACO_RESPONSE_LOG'' = Some path \<and> Abs sys path = Inl e
      \<longrightarrow> fst (setupResponseLog sys w) = Some e
        \<and> responseLogFile (snd (setupResponseLog sys w)) = responseLogFile w)
   \<and> (environ w ''MONACO_RESPONSE_LOG'' = Some path \<and> Abs sys path = Inr absPath
        \<and> fst (OpenFile sys absPath {O_TRUNC, O_CREATE, O_WRONLY} 420
                 (fs (Debug sys [''response log activated at %s'', absPath] w))) = Inl e
      \<longrightarrow> fst (setupResponseLog sys w) = Some e
        \<and> responseLogFile (snd (setupResponseLog sys w)) = responseLogFile w)"
proof (rule conjI; rule impI)
  assume "environ w ''MONACO_RESPONSE_LOG'' = Some path \<and> Abs sys path = Inl e"
  then show "fst (setupResponseLog sys w) = Some e
        \<and> responseLogFile (snd (setupResponseLog sys w)) = responseLogFile w"
    using setupResponseLog_abs_fails [of w path sys e] by simp
next
  let ?wa = "w\<lparr>journal := journal w @ [EvAbs path (Inr absPath)]\<rparr>"
  let ?args = "[''response log activated at %s'', absPath]"
  assume a: "environ w ''MONACO_RESPONSE_LOG'' = Some path \<and> Abs sys path = Inr absPath
        \<and> fst (OpenFile sys absPath {O_TRUNC, O_CREATE, O_WRONLY} 420
                 (fs (Debug sys ?args w))) = Inl e"
  have same: "fs (Debug sys ?args ?wa) = fs (Debug sys ?args w)"
    by (rule Debug_depends) simp_all
  obtain fs' where op: "OpenFile sys absPath {O_TRUNC, O_CREATE, O_WRONLY} 420
      (fs (Debug sys ?args ?wa)) = (Inl e, fs')"
    using a same
    by (cases "OpenFile sys absPath {O_TRUNC, O_CREATE, O_WRONLY} 420 (fs (Debug sys ?args w))")
      simp
  from a have set: "environ w ''MONACO_RESPONSE_LOG'' = Some path" and abs: "Abs sys path = Inr absPath"
    by simp_all
  from setupResponseLog_opens [OF set abs refl op refl]
  show "fst (setupResponseLog sys w) = Some e
        \<and> responseLogFile (snd (setupResponseLog sys w)) = responseLogFile w"
    by simp
qed

lemma callStat_result:
  assumes "callStat sys name w = (r, w')"
  shows "journal w' = journal w @ [EvStat name r] \<and> environ w' = environ w"
  using assms by (auto simp: callStat_def Let_def)

lemma callOpenFile_result:
  assumes "callOpenFile sys name flags perm w = (r, w')"
  shows "journal w' = journal w @ [EvOpenFile name flags perm r] \<and> environ w' = environ w"
  using assms by (auto simp: callOpenFile_def split: prod.splits)

lemma logs_directory_result:
  assumes "(if IsNotExist statErr
            then (case callMkdir sys name perm w of
                    (Some err, w4) \<Rightarrow> (FailOnError sys err msg, w4)
                  | (None, w4) \<Rightarrow> (None, w4))
            else (None, w)) = (stop, w')"
  shows "(journal w' = journal w \<or> (\<exists>r. journal w' = journal w @ [EvMkdir name perm r]))
       \<and> environ w' = environ w"
  using assms by (auto simp: callMkdir_def split: if_splits prod.splits option.splits)

lemma SetupLogging_result:
  assumes "SetupLogging sys verbose w = (out, w')"
  shows "\<exists>evs. journal w' = journal w @ evs
      \<and> (\<forall>path e. EvAbs path (Inl e) \<in> set evs \<longrightarrow> out = Return (Some e))
      \<and> (\<forall>name flags perm e. EvOpenFile name flags perm (Inl e) \<in> set evs
            \<longrightarrow> out = Return (Some e))
      \<and> (out = Return None \<longrightarrow>
            (environ w ''MONACO_REQUEST_LOG'' \<noteq> None \<longrightarrow> requestLogFile w' \<noteq> None)
          \<and> (environ w ''MONACO_RESPONSE_LOG'' \<noteq> None \<longrightarrow> responseLogFile w' \<noteq> None))"
proof -
  let ?w1 = "w\<lparr>Log := \<lparr>Level = InfoLevel, Out = [Stderr]\<rparr>, stdLoggerOut := [Stdout]\<rparr>"
  let ?w2 = "if verbose then ?w1\<lparr>Log := (Log ?w1)\<lparr>Level := DebugLevel\<rparr>\<rparr> else ?w1"
  let ?name = "''.logs'' @ [PathSeparator sys] @ Now sys @ ''.log''"
  have w2: "journal ?w2 = journal w" "environ ?w2 = environ w"
    by simp_all
  obtain statErr w3 where st: "callStat sys ''.logs'' ?w2 = (statErr, w3)"
    by (cases "callStat sys ''.logs'' ?w2")
  let ?dir = "if IsNotExist statErr
              then (case callMkdir sys ''.logs'' 511 w3 of
                      (Some err, w4) \<Rightarrow> (FailOnError sys err ''could not create directory'', w4)
                    | (None, w4) \<Rightarrow> (None, w4))
              else (None, w3)"
  obtain stop w4 where dir: "?dir = (stop, w4)"
    by (cases ?dir)
  from callStat_result [OF st] w2
  have j3: "journal w3 = journal w @ [EvStat ''.logs'' statErr]" and e3: "environ w3 = environ w"
    by simp_all
  from logs_directory_result [OF dir] j3 e3
  obtain evs4 where j4: "journal w4 = journal w @ evs4"
    and a4: "\<forall>path e. EvAbs path (Inl e) \<notin> set evs4"
    and o4: "\<forall>name flags perm e. EvOpenFile name flags perm (Inl e) \<notin> set evs4"
    and e4: "environ w4 = environ w"
    by auto
  show ?thesis
  proof (cases stop)
    case (Some s)
    with assms st dir have "out = Halt s" "w' = w4"
      by (simp_all add: SetupLogging_def Let_def)
    with j4 a4 o4 show ?thesis by auto
  next
    case None
    obtain r5 w5
      where op: "callOpenFile sys ?name {O_CREATE, O_WRONLY, O_APPEND} 438 w4 = (r5, w5)"
      by (cases "callOpenFile sys ?name {O_CREATE, O_WRONLY, O_APPEND} 438 w4")
    from callOpenFile_result [OF op] j4 e4
    have j5: "journal w5
        = journal w @ evs4 @ [EvOpenFile ?name {O_CREATE, O_WRONLY, O_APPEND} 438 r5]"
      and e5: "environ w5 = environ w"
      by simp_all
    show ?thesis
    proof (cases r5)
      case (Inl err)
      with assms st dir None op
      have "out = Return (Some err)"
        "w' = Info sys [''Failed to log to file, using default stderr''] w5"
        by (simp_all add: SetupLogging_def Let_def)
      moreover
      obtain evsI
        where "journal (Info sys [''Failed to log to file, using default stderr''] w5)
               = journal w5 @ evsI"
        and "\<forall>ev \<in> set evsI. \<exists>logFile t x. ev = EvWrite logFile t x"
        by (rule Info_journal)
      ultimately show ?thesis using j5 a4 o4 Inl by auto
    next
      case (Inr logFile)
      let ?w5 = "w5\<lparr>Log := (Log w5)\<lparr>Out := [Stderr, File logFile]\<rparr>\<rparr>"
      obtain r6 w6 where rq: "setupRequestLog sys ?w5 = (r6, w6)"
        by (cases "setupRequestLog sys ?w5")
      from setupRequestLog_result [OF rq] j5 e5 Inr
      obtain evs6 where j6: "journal w6 = journal w @ evs4
            @ [EvOpenFile ?name {O_CREATE, O_WRONLY, O_APPEND} 438 (Inr logFile)] @ evs6"
        and a6: "\<forall>path e. EvAbs path (Inl e) \<in> set evs6 \<longrightarrow> r6 = Some e"
        and o6: "\<forall>name flags perm e. EvOpenFile name flags perm (Inl e) \<in> set evs6
                   \<longrightarrow> r6 = Some e"
        and e6: "environ w6 = environ w"
        and q6: "r6 = None \<and> environ w ''MONACO_REQUEST_LOG'' \<noteq> None
                   \<longrightarrow> requestLogFile w6 \<noteq> None"
        by auto
      show ?thesis
      proof (cases r6)
        case (Some err)
        with assms st dir None op Inr rq
        have "out = Return (Some err)" "w' = w6"
          by (simp_all add: SetupLogging_def Let_def)
        with j6 a4 o4 a6 o6 Some show ?thesis by auto
      next
        case None6: None
        obtain r7 w7 where rs: "setupResponseLog sys w6 = (r7, w7)"
          by (cases "setupResponseLog sys w6")
        from setupResponseLog_result [OF rs] j6 e6
        obtain evs7 where j7: "journal w7 = journal w @ evs4
              @ [EvOpenFile ?name {O_CREATE, O_WRONLY, O_APPEND} 438 (Inr logFile)]
              @ evs6 @ evs7"
          and a7: "\<forall>path e. EvAbs path (Inl e) \<in> set evs7 \<longrightarrow> r7 = Some e"
          and o7: "\<forall>name flags perm e. EvOpenFile name flags perm (Inl e) \<in> set evs7
                     \<longrightarrow> r7 = Some e"
          and q7: "requestLogFile w7 = requestLogFile w6"
          and s7: "r7 = None \<and> environ w ''MONACO_RESPONSE_LOG'' \<noteq> None
                     \<longrightarrow> responseLogFile w7 \<noteq> None"
          by auto
        from assms st dir None op Inr rq None6 rs
        have res: "out = Return r7" "w' = w7"
          by (simp_all add: SetupLogging_def Let_def split: option.splits)
        from a6 o6 None6
        have n6: "\<forall>path e. EvAbs path (Inl e) \<notin> set evs6"
          "\<forall>name flags perm e. EvOpenFile name flags perm (Inl e) \<notin> set evs6"
          by auto
        from res j7 a4 o4 n6 a7 o7 q6 q7 s7 None6 show ?thesis by auto
      qed
    qed
  qed
qed

text \<open>
  Claim C8. When the environment variable of a channel is set and \<open>filepath.Abs\<close>
  fails, or the opening of the file fails in the file system as the debug line before it
  has left it, the initialisation of that channel returns the error and leaves the handle
  unassigned. \<open>SetupLogging\<close> returns that error in turn: every
  failed path resolution and every failed \<open>OpenFile\<close> among the calls it has made is
  the value it returns. It returns nil only with every channel whose variable is set
  active, so a failure never leaves a channel inactive behind a successful setup.
\<close>

theorem setup_failure_is_returned:
  "(environ w ''MONACO_REQUEST_LOG'' = Some path \<and> Abs sys path = Inl e
      \<longrightarrow> fst (setupRequestLog sys w) = Some e
        \<and> requestLogFile (snd (setupRequestLog sys w)) = requestLogFile w)
   \<and> (environ w ''MONACO_REQUEST_LOG'' = Some path \<and> Abs sys path = Inr absPath
        \<and> fst (OpenFile sys absPath {O_TRUNC, O_CREATE, O_WRONLY} 420
                 (fs (Debug sys [''request log activated at %s'', absPath] w))) = Inl e
      \<longrightarrow> fst (setupRequestLog sys w) = Some e
        \<and> requestLogFile (snd (setupRequestLog sys w)) = requestLogFile w)
   \<and> (environ w ''MONACO_RESPONSE_LOG'' = Some path \<and> Abs sys path = Inl e
      \<longrightarrow> fst (setupResponseLog sys w) = Some e
        \<and> responseLogFile (snd (setupResponseLog sys w)) = responseLogFile w)
   \<and> (environ w ''MONACO_RESPONSE_LOG'' = Some path \<and> Abs sys path = Inr absPath
        \<and> fst (OpenFile sys absPath {O_TRUNC, O_CREATE, O_WRONLY} 420
                 (fs (Debug sys [''response log activated at %s'', absPath] w))) = Inl e
      \<longrightarrow> fst (setupResponseLog sys w) = Some e
        \<and> responseLogFile (snd (setupResponseLog sys w)) = responseLogFile w)
   \<and> (EvAbs path (Inl e) \<in> set (events w (snd (SetupLogging sys verbose w)))
      \<longrightarrow> fst (SetupLogging sys verbose w) = Return (Some e))
   \<and> (EvOpenFile name flags perm (Inl e) \<in> set (events w (snd (SetupLogging sys verbose w)))
      \<longrightarrow> fst (SetupLogging sys verbose w) = Return (Some e))
   \<and> (fst (SetupLogging sys verbose w) = Return None
        \<and> environ w ''MONACO_REQUEST_LOG'' \<noteq> None
      \<longrightarrow> IsRequestLoggingActive (snd (SetupLogging sys verbose w)))
   \<and> (fst (SetupLogging sys verbose w) = Return None
        \<and> environ w ''MONACO_RESPONSE_LOG'' \<noteq> None
      \<longrightarrow> IsResponseLoggingActive (snd (SetupLogging sys verbose w)))"
proof -
  obtain out w' where run: "SetupLogging sys verbose w = (out, w')"
    by (cases "SetupLogging sys verbose w")
  from SetupLogging_result [OF run]
  obtain evs where "journal w' = journal w @ evs"
    and "\<forall>path e. EvAbs path (Inl e) \<in> set evs \<longrightarrow> out = Return (Some e)"
    and "\<forall>name flags perm e. EvOpenFile name flags perm (Inl e) \<in> set evs
           \<longrightarrow> out = Return (Some e)"
    and "out = Return None \<longrightarrow>
            (environ w ''MONACO_REQUEST_LOG'' \<noteq> None \<longrightarrow> requestLogFile w' \<noteq> None)
          \<and> (environ w ''MONACO_RESPONSE_LOG'' \<noteq> None \<longrightarrow> responseLogFile w' \<noteq> None)"
    by blast
  with run
  have "(EvAbs path (Inl e) \<in> set (events w (snd (SetupLogging sys verbose w)))
      \<longrightarrow> fst (SetupLogging sys verbose w) = Return (Some e))
   \<and> (EvOpenFile name flags perm (Inl e) \<in> set (events w (snd (SetupLogging sys verbose w)))
      \<longrightarrow> fst (SetupLogging sys verbose w) = Return (Some e))
   \<and> (fst (SetupLogging sys verbose w) = Return None
        \<and> environ w ''MONACO_REQUEST_LOG'' \<noteq> None
      \<longrightarrow> IsRequestLoggingActive (snd (SetupLogging sys verbose w)))
   \<and> (fst (SetupLogging sys verbose w) = Return None
        \<and> environ w ''MONACO_RESPONSE_LOG'' \<noteq> None
      \<longrightarrow> IsResponseLoggingActive (snd (SetupLogging sys verbose w)))"
    by (simp add: events_def IsRequestLoggingActive_def IsResponseLoggingActive_def)
  with setupRequestLog_failures [of w path sys e absPath]
    setupResponseLog_failures [of w path sys e absPath]
  show ?thesis by blast
qed

theorem setup_failure_is_returned_witness:
  "environ (startWorld [''MONACO_REQUEST_LOG'' \<mapsto> ''req.log'', ''MONACO_RESPONSE_LOG'' \<mapsto> ''resp.log''])
      ''MONACO_REQUEST_LOG'' = Some ''req.log''
   \<and> environ (startWorld [''MONACO_REQUEST_LOG'' \<mapsto> ''req.log'', ''MONACO_RESPONSE_LOG'' \<mapsto> ''resp.log''])
      ''MONACO_RESPONSE_LOG'' = Some ''resp.log''
   \<and> fst (setupRequestLog ((memSys {})\<lparr>Abs := (\<lambda>path. Inl (Err ''getwd failed''))\<rparr>)
         (startWorld [''MONACO_REQUEST_LOG'' \<mapsto> ''req.log'', ''MONACO_RESPONSE_LOG'' \<mapsto> ''resp.log'']))
       = Some (Err ''getwd failed'')
   \<and> fst (setupResponseLog ((memSys {})\<lparr>Abs := (\<lambda>path. Inl (Err ''getwd failed''))\<rparr>)
         (startWorld [''MONACO_REQUEST_LOG'' \<mapsto> ''req.log'', ''MONACO_RESPONSE_LOG'' \<mapsto> ''resp.log'']))
       = Some (Err ''getwd failed'')
   \<and> fst (setupRequestLog (memSys {''/work/req.log'', ''/work/resp.log''})
         (startWorld [''MONACO_REQUEST_LOG'' \<mapsto> ''req.log'', ''MONACO_RESPONSE_LOG'' \<mapsto> ''resp.log'']))
       = Some (Err ''permission denied'')
   \<and> fst (setupResponseLog (memSys {''/work/req.log'', ''/work/resp.log''})
         (startWorld [''MONACO_REQUEST_LOG'' \<mapsto> ''req.log'', ''MONACO_RESPONSE_LOG'' \<mapsto> ''resp.log'']))
       = Some (Err ''permission denied'')
   \<and> fst (SetupLogging ((memSys {})\<lparr>Abs := (\<lambda>path. Inl (Err ''getwd failed''))\<rparr>) False
         (startWorld [''MONACO_REQUEST_LOG'' \<mapsto> ''req.log'', ''MONACO_RESPONSE_LOG'' \<mapsto> ''resp.log'']))
       = Return (Some (Err ''getwd failed''))
   \<and> fst (SetupLogging (memSys {''/work/resp.log''}) True
         (startWorld [''MONACO_REQUEST_LOG'' \<mapsto> ''req.log'', ''MONACO_RESPONSE_LOG'' \<mapsto> ''resp.log'']))
       = Return (Some (Err ''permission denied''))
   \<and> IsRequestLoggingActive (snd (SetupLogging (memSys {''/work/resp.log''}) True
         (startWorld [''MONACO_REQUEST_LOG'' \<mapsto> ''req.log'', ''MONACO_RESPONSE_LOG'' \<mapsto> ''resp.log''])))
   \<and> fst (SetupLogging (memSys {}) False
         (startWorld [''MONACO_REQUEST_LOG'' \<mapsto> ''req.log'', ''MONACO_RESPONSE_LOG'' \<mapsto> ''resp.log'']))
       = Return None
   \<and> IsRequestLoggingActive (snd (SetupLogging (memSys {}) False
         (startWorld [''MONACO_REQUEST_LOG'' \<mapsto> ''req.log'', ''MONACO_RESPONSE_LOG'' \<mapsto> ''resp.log''])))
   \<and> IsResponseLoggingActive (snd (SetupLogging (memSys {}) False
         (startWorld [''MONACO_REQUEST_LOG'' \<mapsto> ''req.log'', ''MONACO_RESPONSE_LOG'' \<mapsto> ''resp.log''])))"
proof -
  let ?w = "startWorld [''MONACO_REQUEST_LOG'' \<mapsto> ''req.log'', ''MONACO_RESPONSE_LOG'' \<mapsto> ''resp.log'']"
  let ?noAbs = "(memSys {})\<lparr>Abs := (\<lambda>path. Inl (Err ''getwd failed''))\<rparr>"
  let ?flags = "{O_TRUNC, O_CREATE, O_WRONLY}"
  have env: "environ ?w ''MONACO_REQUEST_LOG'' = Some ''req.log''"
    "environ ?w ''MONACO_RESPONSE_LOG'' = Some ''resp.log''"
    by (simp_all add: startWorld_def)
  have abs: "Abs ?noAbs ''req.log'' = Inl (Err ''getwd failed'')"
    "Abs ?noAbs ''resp.log'' = Inl (Err ''getwd failed'')"
    "Abs (memSys {''/work/req.log'', ''/work/resp.log''}) ''req.log'' = Inr ''/work/req.log''"
    "Abs (memSys {''/work/req.log'', ''/work/resp.log''}) ''resp.log'' = Inr ''/work/resp.log''"
    by (simp_all add: memSys_def)
  have op: "fst (OpenFile (memSys {''/work/req.log'', ''/work/resp.log''}) ''/work/req.log''
                  ?flags 420
                  (fs (Debug (memSys {''/work/req.log'', ''/work/resp.log''})
                         [''request log activated at %s'', ''/work/req.log''] ?w)))
              = Inl (Err ''permission denied'')"
    "fst (OpenFile (memSys {''/work/req.log'', ''/work/resp.log''}) ''/work/resp.log''
                  ?flags 420
                  (fs (Debug (memSys {''/work/req.log'', ''/work/resp.log''})
                         [''response log activated at %s'', ''/work/resp.log''] ?w)))
              = Inl (Err ''permission denied'')"
    by (simp_all add: memSys_def)
  have ev: "EvAbs ''req.log'' (Inl (Err ''getwd failed''))
        \<in> set (events ?w (snd (SetupLogging ?noAbs False ?w)))"
    "EvOpenFile ''/work/resp.log'' ?flags 420 (Inl (Err ''permission denied''))
        \<in> set (events ?w (snd (SetupLogging (memSys {''/work/resp.log''}) True ?w)))"
    by (simp_all add: setup_defs)
  have ok: "fst (SetupLogging (memSys {}) False ?w) = Return None"
    by (simp add: setup_defs)
  have act: "IsRequestLoggingActive (snd (SetupLogging (memSys {''/work/resp.log''}) True ?w))"
    by (simp add: setup_defs)
  from env abs op ev ok act
    setup_failure_is_returned [where w = ?w and sys = ?noAbs and path = "''req.log''"
      and e = "Err ''getwd failed''" and verbose = False]
    setup_failure_is_returned [where w = ?w and sys = ?noAbs and path = "''resp.log''"
      and e = "Err ''getwd failed''" and verbose = False]
    setup_failure_is_returned [where w = ?w
      and sys = "memSys {''/work/req.log'', ''/work/resp.log''}" and path = "''req.log''"
      and absPath = "''/work/req.log''" and e = "Err ''permission denied''"]
    setup_failure_is_returned [where w = ?w
      and sys = "memSys {''/work/req.log'', ''/work/resp.log''}" and path = "''resp.log''"
      and absPath = "''/work/resp.log''" and e = "Err ''permission denied''"]
    setup_failure_is_returned [where w = ?w and sys = "memSys {''/work/resp.log''}"
      and name = "''/work/resp.log''" and flags = ?flags and perm = 420
      and e = "Err ''permission denied''" and verbose = True]
    setup_failure_is_returned [where w = ?w and sys = "memSys {}" and verbose = False]
  show ?thesis
    by simp
qed

end
